theory Spec2Isabelle
  imports Main
begin

section \<open>Python strings, lists and exceptions\<close>

text \<open>
  The program is \<^verbatim>\<open>src/support_system.py\<close>. A Python \<^verbatim>\<open>str\<close> is modelled as a HOL
  \<^typ>\<open>string\<close>, read as the UTF-8 bytes of the text. White space is all of Python's
  white space, ASCII or not. Letter case is that of the ASCII letters: the one
  character outside ASCII that \<^verbatim>\<open>str.lower()\<close> turns into an ASCII letter is the
  Kelvin sign U+212A, which becomes \<open>k\<close>, and no word the program compares a lowered
  text with holds a \<open>k\<close>, so every comparison of the program has in the model the
  result it has in Python.

  An exception is a value: its class, and for the classes that carry one, the message
  or the key. Only its text \<^verbatim>\<open>str(e)\<close> is ever read, by the handlers.
\<close>

datatype py_exception =
    Exception string
  | IndexError
  | KeyError string
  | TypeError string
  | EOFError

text \<open>\<^verbatim>\<open>str(e)\<close>, as the handlers embed it in their apology.\<close>

fun str_exc :: "py_exception \<Rightarrow> string" where
  "str_exc (Exception m) = m"
| "str_exc IndexError = ''list index out of range''"
| "str_exc (KeyError k) = [CHR 0x27] @ k @ [CHR 0x27]"
| "str_exc (TypeError m) = m"
| "str_exc EOFError = ''EOF when reading a line''"

text \<open>The white space of \<^verbatim>\<open>str.strip()\<close>: the characters \<^verbatim>\<open>str.isspace()\<close> holds for,
  each as its UTF-8 bytes. They are U+0009 to U+000D, U+001C to U+001F, U+0020, U+0085,
  U+00A0, U+1680, U+2000 to U+200A, U+2028, U+2029, U+202F, U+205F and U+3000. No
  piece is the head of another, and in UTF-8 a piece at the head or at the end of a text
  is a character of the text.\<close>

definition str_startswith :: "string \<Rightarrow> string \<Rightarrow> bool" where
  "str_startswith s p = (take (length p) s = p)"

definition whitespace :: "string list" where
  "whitespace =
     [[CHR 0x09], [CHR 0x0A], [CHR 0x0B], [CHR 0x0C], [CHR 0x0D],
      [CHR 0x1C], [CHR 0x1D], [CHR 0x1E], [CHR 0x1F], [CHR 0x20],
      [CHR 0xC2, CHR 0x85], [CHR 0xC2, CHR 0xA0],
      [CHR 0xE1, CHR 0x9A, CHR 0x80],
      [CHR 0xE2, CHR 0x80, CHR 0x80], [CHR 0xE2, CHR 0x80, CHR 0x81],
      [CHR 0xE2, CHR 0x80, CHR 0x82], [CHR 0xE2, CHR 0x80, CHR 0x83],
      [CHR 0xE2, CHR 0x80, CHR 0x84], [CHR 0xE2, CHR 0x80, CHR 0x85],
      [CHR 0xE2, CHR 0x80, CHR 0x86], [CHR 0xE2, CHR 0x80, CHR 0x87],
      [CHR 0xE2, CHR 0x80, CHR 0x88], [CHR 0xE2, CHR 0x80, CHR 0x89],
      [CHR 0xE2, CHR 0x80, CHR 0x8A],
      [CHR 0xE2, CHR 0x80, CHR 0xA8], [CHR 0xE2, CHR 0x80, CHR 0xA9],
      [CHR 0xE2, CHR 0x80, CHR 0xAF], [CHR 0xE2, CHR 0x81, CHR 0x9F],
      [CHR 0xE3, CHR 0x80, CHR 0x80]]"

text \<open>Removing a leading piece that is in the list \<open>ws\<close>, as long as there is one.\<close>

function strip_leading :: "string list \<Rightarrow> string \<Rightarrow> string" where
  "strip_leading ws s =
     (case find (\<lambda>w. w \<noteq> [] \<and> str_startswith s w) ws of
        None \<Rightarrow> s
      | Some w \<Rightarrow> strip_leading ws (drop (length w) s))"
  by pat_completeness auto
termination
proof (relation "measure (\<lambda>(ws, s). length s)")
  show "wf (measure (\<lambda>(ws, s). length s))" by simp
next
  fix ws :: "string list" and s w :: string
  assume "find (\<lambda>w. w \<noteq> [] \<and> str_startswith s w) ws = Some w"
  then have "w \<noteq> []" and "take (length w) s = w"
    by (auto simp: find_Some_iff str_startswith_def)
  then have "s \<noteq> []" and "0 < length w" by auto
  then show "((ws, drop (length w) s), (ws, s)) \<in> measure (\<lambda>(ws, s). length s)"
    by (cases s) auto
qed

declare strip_leading.simps [simp del]

text \<open>\<^verbatim>\<open>str.strip()\<close> removes the white space at both ends; at the end of the text, a
  piece stands reversed at the head of the reversed text.\<close>

definition str_lstrip :: "string \<Rightarrow> string" where
  "str_lstrip s = strip_leading whitespace s"

definition str_rstrip :: "string \<Rightarrow> string" where
  "str_rstrip s = rev (strip_leading (map rev whitespace) (rev s))"

definition str_strip :: "string \<Rightarrow> string" where
  "str_strip s = str_rstrip (str_lstrip s)"

definition lower_char :: "char \<Rightarrow> char" where
  "lower_char c =
     (case map_of (zip ''ABCDEFGHIJKLMNOPQRSTUVWXYZ'' ''abcdefghijklmnopqrstuvwxyz'') c of
        None \<Rightarrow> c
      | Some d \<Rightarrow> d)"

definition str_lower :: "string \<Rightarrow> string" where
  "str_lower s = map lower_char s"

text \<open>\<^verbatim>\<open>s.split(sep)\<close> for a separator of one character: the pieces between the
  occurrences of the separator, in order; one piece more than there are separators.\<close>

fun str_split :: "string \<Rightarrow> char \<Rightarrow> string list" where
  "str_split [] sep = [[]]"
| "str_split (c # cs) sep =
     (if c = sep then [] # str_split cs sep
      else (case str_split cs sep of
              [] \<Rightarrow> [[c]]
            | p # ps \<Rightarrow> (c # p) # ps))"

text \<open>\<^verbatim>\<open>xs[i]\<close> for an index that is not negative: out of range raises.\<close>

definition list_getitem :: "'a list \<Rightarrow> nat \<Rightarrow> py_exception + 'a" where
  "list_getitem xs i = (if i < length xs then Inr (xs ! i) else Inl IndexError)"

fun str_join :: "string \<Rightarrow> string list \<Rightarrow> string" where
  "str_join sep [] = []"
| "str_join sep [x] = x"
| "str_join sep (x # y # ys) = x @ sep @ str_join sep (y # ys)"

text \<open>\<^verbatim>\<open>str(n)\<close> for the result of \<^verbatim>\<open>len\<close>: decimal digits.\<close>

fun str_nat :: "nat \<Rightarrow> string" where
  "str_nat n =
     (if n < 10 then [''0123456789'' ! n]
      else str_nat (n div 10) @ [''0123456789'' ! (n mod 10)])"

declare str_nat.simps [simp del]

definition dquote :: string where
  "dquote = [CHR 0x22]"

section \<open>The user context and the issue types\<close>

text \<open>\<^verbatim>\<open>class UserContext(BaseModel)\<close>, lines 19 to 23. \<^verbatim>\<open>issue_type\<close> is
  \<^verbatim>\<open>Optional[str]\<close>.\<close>

record UserContext =
  name :: string
  is_premium_user :: bool
  issue_type :: "string option"
  previous_queries :: "string list"

definition UserContext_default :: UserContext where
  "UserContext_default =
     \<lparr>name = ''Guest'', is_premium_user = False, issue_type = None, previous_queries = []\<rparr>"

datatype IssueType = BILLING | TECHNICAL | GENERAL

fun IssueType_value :: "IssueType \<Rightarrow> string" where
  "IssueType_value BILLING = ''billing''"
| "IssueType_value TECHNICAL = ''technical''"
| "IssueType_value GENERAL = ''general''"

text \<open>The members in the order of iteration, \<^verbatim>\<open>for it in IssueType\<close>.\<close>

definition IssueType_members :: "IssueType list" where
  "IssueType_members = [BILLING, TECHNICAL, GENERAL]"

section \<open>The triage agent\<close>

text \<open>
  The classifier is a parameter \<open>generate_content\<close>: for a prompt it gives the text of
  the response (\<^verbatim>\<open>model.generate_content(prompt)\<close> followed by \<^verbatim>\<open>response.text\<close>)
  or the exception that one of the two raised. Only exceptions of the class
  \<^verbatim>\<open>Exception\<close> are in the model; an interrupt of the process is not.

  An agent's attribute \<^verbatim>\<open>self.context\<close> is \<^verbatim>\<open>None\<close> until \<^verbatim>\<open>set_context\<close> binds
  it, so the agents take a \<^typ>\<open>UserContext option\<close>. A \<^verbatim>\<open>BaseModel\<close> object is always
  true as a condition, so \<^verbatim>\<open>if self.context\<close> asks whether the context is bound.
\<close>

definition TriageAgent_prompt :: "string \<Rightarrow> string" where
  "TriageAgent_prompt query =
     ''\<newline>        Analyze the following user query and determine the most appropriate category:\<newline>        ''
     @ dquote @ query @ dquote @
     ''\<newline>        \<newline>        Categories:\<newline>''
     @ ''        - billing: Issues related to payments, refunds, subscriptions, invoices\<newline>''
     @ ''        - technical: Problems with service, bugs, errors, functionality issues\<newline>''
     @ ''        - general: Other inquiries, account questions, general information\<newline>''
     @ ''        \<newline>''
     @ ''        Respond with ONLY the category name (billing, technical, or general).\<newline>        ''"

text \<open>The body of the \<^verbatim>\<open>try\<close>, lines 70 to 76: the validated category, or the
  exception that the \<^verbatim>\<open>except\<close> of line 77 catches.\<close>

definition TriageAgent_try :: "(py_exception + string) \<Rightarrow> py_exception + string" where
  "TriageAgent_try response =
     (case response of
        Inl e \<Rightarrow> Inl e
      | Inr text \<Rightarrow>
          (let issue_type = str_lower (str_strip text)
           in if issue_type \<notin> set (map IssueType_value IssueType_members)
              then Inr (IssueType_value GENERAL)
              else Inr issue_type))"

text \<open>\<^verbatim>\<open>TriageAgent.process_query\<close>, lines 55 to 88. The dictionary it returns has the
  two keys \<^verbatim>\<open>issue_type\<close> and \<^verbatim>\<open>message\<close>: the pair, in this order. The second
  component of the result is the agent's context after the call.\<close>

definition TriageAgent_process_query ::
  "(string \<Rightarrow> py_exception + string) \<Rightarrow> UserContext option \<Rightarrow> string
     \<Rightarrow> (string \<times> string) \<times> UserContext option" where
  "TriageAgent_process_query generate_content context query =
     (let prompt = TriageAgent_prompt query;
          issue_type = (case TriageAgent_try (generate_content prompt) of
                          Inl e \<Rightarrow> IssueType_value GENERAL
                        | Inr t \<Rightarrow> t);
          context' = (case context of
                        None \<Rightarrow> None
                      | Some c \<Rightarrow>
                          Some (c\<lparr>issue_type := Some issue_type,
                                  previous_queries := previous_queries c @ [query]\<rparr>))
      in ((issue_type,
           ''Your query has been categorized as: '' @ issue_type
             @ ''. Transferring you to the '' @ issue_type @ '' specialist.''),
          context'))"

section \<open>The specialist agents\<close>

text \<open>
  Each specialist holds a dictionary \<^verbatim>\<open>self.tools\<close> from a tool's name to its function
  and description: an association list in the order of insertion, which is the order
  \<^verbatim>\<open>get_available_tools\<close> iterates in. The functions are the simulated effects: each
  takes the query and returns a fixed text.

  A handler returns its response together with the names of the tools whose function
  it called, in order. The second component is not a value of the program: it records
  that line 147, 223 or 286 ran, so that a statement can say that an effect was or was
  not invoked.
\<close>

record tool_info =
  func :: "string \<Rightarrow> string"
  description :: string

text \<open>The prompt of lines 129 to 137, 205 to 213 and 268 to 276; the three differ in
  the word \<open>kind\<close> only, which stands twice.\<close>

definition specialist_prompt :: "string \<Rightarrow> string \<Rightarrow> string list \<Rightarrow> string" where
  "specialist_prompt kind query available_tools =
     ''\<newline>        You are a '' @ kind @ '' support agent. Based on the user query: ''
     @ dquote @ query @ dquote @
     ''\<newline>        \<newline>        Available tools: '' @ str_join '', '' available_tools @
     ''\<newline>        \<newline>''
     @ ''        Determine the most appropriate tool to use or provide a general response.\<newline>''
     @ ''        If using a tool, respond with: TOOL:<tool_name>\<newline>''
     @ ''        Otherwise, provide a helpful response to the user's '' @ kind
     @ '' inquiry.\<newline>        ''"

text \<open>The expression \<^verbatim>\<open>response_text.split(":")[1].strip()\<close> of lines 145, 221 and
  284, the same in the three handlers: the second piece of the split, stripped, or the
  \<^verbatim>\<open>IndexError\<close> of the index.\<close>

definition extract_tool_name :: "string \<Rightarrow> py_exception + string" where
  "extract_tool_name response_text =
     (case list_getitem (str_split response_text CHR '':'') 1 of
        Inl e \<Rightarrow> Inl e
      | Inr part \<Rightarrow> Inr (str_strip part))"

subsection \<open>Billing\<close>

definition process_refund :: "string \<Rightarrow> string" where
  "process_refund query =
     ''Your refund has been processed successfully. It will reflect in your account within 5-7 business days.''"

definition explain_charges :: "string \<Rightarrow> string" where
  "explain_charges query =
     ''Your recent charge of $49.99 is for your monthly subscription. This includes access to all premium features.''"

definition update_subscription :: "string \<Rightarrow> string" where
  "update_subscription query =
     ''Your subscription has been updated successfully. Your new plan will take effect in the next billing cycle.''"

definition BillingAgent_tools :: "(string \<times> tool_info) list" where
  "BillingAgent_tools =
     [(''process_refund'',
         \<lparr>func = process_refund, description = ''Process a refund for the user''\<rparr>),
      (''explain_charges'',
         \<lparr>func = explain_charges,
          description = ''Explain recent charges on the user's account''\<rparr>),
      (''update_subscription'',
         \<lparr>func = update_subscription,
          description = ''Update the user's subscription plan''\<rparr>)]"

text \<open>Lines 120 to 123. \<^verbatim>\<open>self.context and self.context.is_premium_user\<close> is false
  for an unbound context and the flag otherwise.\<close>

definition BillingAgent_is_tool_enabled :: "UserContext option \<Rightarrow> string \<Rightarrow> bool" where
  "BillingAgent_is_tool_enabled context tool_name =
     (if tool_name = ''process_refund''
      then (case context of None \<Rightarrow> False | Some c \<Rightarrow> is_premium_user c)
      else True)"

definition BillingAgent_get_available_tools :: "UserContext option \<Rightarrow> string list" where
  "BillingAgent_get_available_tools context =
     filter (BillingAgent_is_tool_enabled context) (map fst BillingAgent_tools)"

definition BillingAgent_refusal :: string where
  "BillingAgent_refusal = ''I'm sorry, that action is not available for your account.''"

text \<open>The body of the \<^verbatim>\<open>try\<close>, lines 140 to 152. The test
  \<^verbatim>\<open>tool_name in self.tools\<close> and the lookup \<^verbatim>\<open>self.tools[tool_name]\<close> it guards are the
  one lookup in the association list.\<close>

definition BillingAgent_try ::
  "UserContext option \<Rightarrow> string \<Rightarrow> (py_exception + string)
     \<Rightarrow> py_exception + (string \<times> string list)" where
  "BillingAgent_try context query response =
     (case response of
        Inl e \<Rightarrow> Inl e
      | Inr text \<Rightarrow>
          (let response_text = str_strip text
           in if str_startswith response_text ''TOOL:''
              then (case extract_tool_name response_text of
                      Inl e \<Rightarrow> Inl e
                    | Inr tool_name \<Rightarrow>
                        (case map_of BillingAgent_tools tool_name of
                          Some tool \<Rightarrow>
                            if BillingAgent_is_tool_enabled context tool_name
                            then (let tool_response = func tool query
                                  in Inr (''Used '' @ tool_name @ '': '' @ tool_response,
                                          [tool_name]))
                            else Inr (BillingAgent_refusal, [])
                        | None \<Rightarrow> Inr (BillingAgent_refusal, [])))
              else Inr (response_text, [])))"

text \<open>\<^verbatim>\<open>BillingAgent.process_query\<close>, lines 125 to 154.\<close>

definition BillingAgent_process_query ::
  "(string \<Rightarrow> py_exception + string) \<Rightarrow> UserContext option \<Rightarrow> string
     \<Rightarrow> string \<times> string list" where
  "BillingAgent_process_query generate_content context query =
     (let available_tools = BillingAgent_get_available_tools context;
          prompt = specialist_prompt ''billing'' query available_tools
      in case BillingAgent_try context query (generate_content prompt) of
           Inl e \<Rightarrow>
             (''I apologize, I encountered an error processing your billing request: ''
                @ str_exc e, [])
         | Inr r \<Rightarrow> r)"

subsection \<open>Technical\<close>

definition restart_service :: "string \<Rightarrow> string" where
  "restart_service query =
     ''The service has been restarted successfully. Please allow a few minutes for it to become fully operational.''"

definition reset_password :: "string \<Rightarrow> string" where
  "reset_password query =
     ''A password reset link has been sent to your email. Please check your inbox and follow the instructions.''"

definition check_status :: "string \<Rightarrow> string" where
  "check_status query = ''All systems are operational. No outages reported at this time.''"

definition TechnicalAgent_tools :: "(string \<times> tool_info) list" where
  "TechnicalAgent_tools =
     [(''restart_service'',
         \<lparr>func = restart_service, description = ''Restart a service for the user''\<rparr>),
      (''reset_password'',
         \<lparr>func = reset_password, description = ''Reset the user's password''\<rparr>),
      (''check_status'',
         \<lparr>func = check_status, description = ''Check the status of services''\<rparr>)]"

text \<open>Lines 197 to 200.\<close>

definition TechnicalAgent_is_tool_enabled :: "UserContext option \<Rightarrow> string \<Rightarrow> bool" where
  "TechnicalAgent_is_tool_enabled context tool_name =
     (if tool_name = ''restart_service''
      then (case context of
              None \<Rightarrow> False
            | Some c \<Rightarrow> issue_type c = Some (IssueType_value TECHNICAL))
      else True)"

definition TechnicalAgent_get_available_tools :: "UserContext option \<Rightarrow> string list" where
  "TechnicalAgent_get_available_tools context =
     filter (TechnicalAgent_is_tool_enabled context) (map fst TechnicalAgent_tools)"

definition TechnicalAgent_refusal :: string where
  "TechnicalAgent_refusal =
     ''I'm sorry, that action is not available for your account or issue type.''"

text \<open>The body of the \<^verbatim>\<open>try\<close>, lines 216 to 228.\<close>

definition TechnicalAgent_try ::
  "UserContext option \<Rightarrow> string \<Rightarrow> (py_exception + string)
     \<Rightarrow> py_exception + (string \<times> string list)" where
  "TechnicalAgent_try context query response =
     (case response of
        Inl e \<Rightarrow> Inl e
      | Inr text \<Rightarrow>
          (let response_text = str_strip text
           in if str_startswith response_text ''TOOL:''
              then (case extract_tool_name response_text of
                      Inl e \<Rightarrow> Inl e
                    | Inr tool_name \<Rightarrow>
                        (case map_of TechnicalAgent_tools tool_name of
                          Some tool \<Rightarrow>
                            if TechnicalAgent_is_tool_enabled context tool_name
                            then (let tool_response = func tool query
                                  in Inr (''Used '' @ tool_name @ '': '' @ tool_response,
                                          [tool_name]))
                            else Inr (TechnicalAgent_refusal, [])
                        | None \<Rightarrow> Inr (TechnicalAgent_refusal, [])))
              else Inr (response_text, [])))"

text \<open>\<^verbatim>\<open>TechnicalAgent.process_query\<close>, lines 202 to 230.\<close>

definition TechnicalAgent_process_query ::
  "(string \<Rightarrow> py_exception + string) \<Rightarrow> UserContext option \<Rightarrow> string
     \<Rightarrow> string \<times> string list" where
  "TechnicalAgent_process_query generate_content context query =
     (let available_tools = TechnicalAgent_get_available_tools context;
          prompt = specialist_prompt ''technical'' query available_tools
      in case TechnicalAgent_try context query (generate_content prompt) of
           Inl e \<Rightarrow>
             (''I apologize, I encountered an error processing your technical request: ''
                @ str_exc e, [])
         | Inr r \<Rightarrow> r)"

subsection \<open>General\<close>

definition provide_info :: "string \<Rightarrow> string" where
  "provide_info query =
     ''Our company provides a range of services designed to meet your needs. For more specific information, please visit our website or contact our support team.''"

definition escalate_issue :: "string \<Rightarrow> string" where
  "escalate_issue query =
     ''Your issue has been escalated to a human representative. They will contact you within 24 hours.''"

definition GeneralAgent_tools :: "(string \<times> tool_info) list" where
  "GeneralAgent_tools =
     [(''provide_info'',
         \<lparr>func = provide_info,
          description = ''Provide general information about services''\<rparr>),
      (''escalate_issue'',
         \<lparr>func = escalate_issue,
          description = ''Escalate the issue to a human representative''\<rparr>)]"

definition GeneralAgent_get_available_tools :: "string list" where
  "GeneralAgent_get_available_tools = map fst GeneralAgent_tools"

definition GeneralAgent_refusal :: string where
  "GeneralAgent_refusal = ''I'm sorry, that action is not available.''"

text \<open>The body of the \<^verbatim>\<open>try\<close>, lines 279 to 291. This handler has no gate.\<close>

definition GeneralAgent_try ::
  "string \<Rightarrow> (py_exception + string) \<Rightarrow> py_exception + (string \<times> string list)" where
  "GeneralAgent_try query response =
     (case response of
        Inl e \<Rightarrow> Inl e
      | Inr text \<Rightarrow>
          (let response_text = str_strip text
           in if str_startswith response_text ''TOOL:''
              then (case extract_tool_name response_text of
                      Inl e \<Rightarrow> Inl e
                    | Inr tool_name \<Rightarrow>
                        (case map_of GeneralAgent_tools tool_name of
                          Some tool \<Rightarrow>
                            (let tool_response = func tool query
                             in Inr (''Used '' @ tool_name @ '': '' @ tool_response,
                                     [tool_name]))
                        | None \<Rightarrow> Inr (GeneralAgent_refusal, [])))
              else Inr (response_text, [])))"

text \<open>\<^verbatim>\<open>GeneralAgent.process_query\<close>, lines 265 to 293.\<close>

definition GeneralAgent_process_query ::
  "(string \<Rightarrow> py_exception + string) \<Rightarrow> string \<Rightarrow> string \<times> string list" where
  "GeneralAgent_process_query generate_content query =
     (let available_tools = GeneralAgent_get_available_tools;
          prompt = specialist_prompt ''general'' query available_tools
      in case GeneralAgent_try query (generate_content prompt) of
           Inl e \<Rightarrow>
             (''I apologize, I encountered an error processing your request: ''
                @ str_exc e, [])
         | Inr r \<Rightarrow> r)"

section \<open>The support system\<close>

text \<open>
  \<^verbatim>\<open>class SupportSystem\<close>, lines 304 to 367. The object has the dictionary of the four
  agents, the key of the current agent and the context (the field \<open>user_context\<close>
  below). \<^verbatim>\<open>__init__\<close> binds the one context object to every agent, so each agent's
  \<^verbatim>\<open>self.context\<close> is the system's context at every moment, and a change the
  triage agent makes to it is a change of the system's context.
\<close>

datatype agent = TriageAgent | BillingAgent | TechnicalAgent | GeneralAgent

fun agent_name :: "agent \<Rightarrow> string" where
  "agent_name TriageAgent = ''Triage Agent''"
| "agent_name BillingAgent = ''Billing Agent''"
| "agent_name TechnicalAgent = ''Technical Agent''"
| "agent_name GeneralAgent = ''General Agent''"

definition agents :: "(string \<times> agent) list" where
  "agents =
     [(''triage'', TriageAgent), (''billing'', BillingAgent),
      (''technical'', TechnicalAgent), (''general'', GeneralAgent)]"

text \<open>What \<^verbatim>\<open>agent.process_query\<close> returns: the triage agent's dictionary, or a
  specialist's text.\<close>

datatype response = Routed string string | Reply string

text \<open>The text an f-string gives for a response. For the dictionary it is its
  \<^verbatim>\<open>repr\<close>, written here for values without a quote, a backslash or a control
  character, which is what the triage agent produces.\<close>

fun str_response :: "response \<Rightarrow> string" where
  "str_response (Reply r) = r"
| "str_response (Routed it msg) =
     ''{'' @ [CHR 0x27] @ ''issue_type'' @ [CHR 0x27] @ '': '' @ [CHR 0x27] @ it @ [CHR 0x27]
     @ '', '' @ [CHR 0x27] @ ''message'' @ [CHR 0x27] @ '': '' @ [CHR 0x27] @ msg
     @ [CHR 0x27] @ ''}''"

text \<open>The call \<^verbatim>\<open>agent.process_query(user_input)\<close> of line 333, dispatched on the
  agent's class: the response, the context after the call, and the tools invoked.\<close>

fun process_query ::
  "agent \<Rightarrow> (string \<Rightarrow> py_exception + string) \<Rightarrow> UserContext \<Rightarrow> string
     \<Rightarrow> response \<times> UserContext \<times> string list" where
  "process_query TriageAgent generate_content ctx query =
     (case TriageAgent_process_query generate_content (Some ctx) query of
        ((it, msg), context') \<Rightarrow>
          (Routed it msg, (case context' of None \<Rightarrow> ctx | Some c \<Rightarrow> c), []))"
| "process_query BillingAgent generate_content ctx query =
     (case BillingAgent_process_query generate_content (Some ctx) query of
        (r, tools) \<Rightarrow> (Reply r, ctx, tools))"
| "process_query TechnicalAgent generate_content ctx query =
     (case TechnicalAgent_process_query generate_content (Some ctx) query of
        (r, tools) \<Rightarrow> (Reply r, ctx, tools))"
| "process_query GeneralAgent generate_content ctx query =
     (case GeneralAgent_process_query generate_content query of
        (r, tools) \<Rightarrow> (Reply r, ctx, tools))"

text \<open>
  A session is the system's two mutable attributes together with the run of
  \<^verbatim>\<open>start\<close>: where the program waits (\<open>At_input\<close>: the \<^verbatim>\<open>input\<close> of line 325;
  \<open>At_continue\<close>: the \<^verbatim>\<open>input\<close> of line 354; \<open>Ended\<close>: after the summary), what it has
  written to the standard output, and how many classifier calls it has made. The last
  two fields are a record of the run and no values of the program: \<open>handled\<close> lists,
  for each call of line 333, the key of the agent and the query; \<open>invoked\<close> lists the
  tools whose function was called.

  The classifier of a session is a function of the number of calls made before and of
  the prompt, so that two calls with the same prompt may answer differently.
\<close>

datatype program_point = At_input | At_continue | Ended

record session =
  current_agent :: string
  user_context :: UserContext
  point :: program_point
  stdout :: "string list"
  llm_calls :: nat
  handled :: "(string \<times> string) list"
  invoked :: "string list"

text \<open>The four markers the messages start with, as the bytes of the source file.\<close>

definition blue_marker :: string where
  "blue_marker = [CHR 0xC3, CHR 0xB0, CHR 0xC5, CHR 0xB8, CHR 0xE2, CHR 0x80, CHR 0x9D,
                  CHR 0xC2, CHR 0xB5]"

definition user_marker :: string where
  "user_marker = [CHR 0xC3, CHR 0xB0, CHR 0xC5, CHR 0xB8, CHR 0xE2, CHR 0x80, CHR 0x98,
                  CHR 0xC2, CHR 0xA4]"

definition green_marker :: string where
  "green_marker = [CHR 0xC3, CHR 0xB0, CHR 0xC5, CHR 0xB8, CHR 0xC5, CHR 0xB8, CHR 0xC2,
                   CHR 0xA2]"

definition chart_marker :: string where
  "chart_marker = [CHR 0xC3, CHR 0xB0, CHR 0xC5, CHR 0xB8, CHR 0xE2, CHR 0x80, CHR 0x9C,
                   CHR 0xC5, CHR 0xA0]"

definition stdout_write :: "string \<Rightarrow> session \<Rightarrow> session" where
  "stdout_write t s = s\<lparr>stdout := stdout s @ [t]\<rparr>"

definition py_print :: "string \<Rightarrow> session \<Rightarrow> session" where
  "py_print t s = stdout_write (t @ ''\<newline>'') s"

definition goodbye :: string where
  "goodbye = blue_marker @ '' Thank you for using our support system. Goodbye!''"

text \<open>Lines 363 to 367, after the loop.\<close>

definition print_summary :: "session \<Rightarrow> session" where
  "print_summary s =
     (let s1 = py_print (''\<newline>'' @ chart_marker @ '' Session Summary:'') s;
          s2 = py_print (''   User: '' @ name (user_context s1)) s1;
          s3 = py_print (''   Premium: ''
                           @ (if is_premium_user (user_context s2) then ''Yes'' else ''No'')) s2;
          s4 = py_print (''   Issue Type: ''
                           @ (case issue_type (user_context s3) of
                                None \<Rightarrow> ''None''
                              | Some t \<Rightarrow> t)) s3
      in py_print (''   Queries Handled: ''
                     @ str_nat (length (previous_queries (user_context s4)))) s4)"

text \<open>Leaving the loop by \<^verbatim>\<open>break\<close>: the goodbye, then the summary.\<close>

definition leave :: "session \<Rightarrow> session" where
  "leave s = (print_summary (py_print goodbye s))\<lparr>point := Ended\<rparr>"

text \<open>
  One step of the loop of lines 324 to 360: from a read of a line to the next read, or
  to the end. A step at \<open>At_input\<close> is lines 325 to 353 with the line read at 325; a
  step at \<open>At_continue\<close> is lines 354 to 360 with the line read at 354. \<^verbatim>\<open>input\<close>
  writes its prompt before it reads. After the end nothing is read.
\<close>

definition step ::
  "(nat \<Rightarrow> string \<Rightarrow> py_exception + string) \<Rightarrow> string \<Rightarrow> session
     \<Rightarrow> py_exception + session" where
  "step llm line s =
     (case point s of
        Ended \<Rightarrow> Inr s
      | At_input \<Rightarrow>
          (let s1 = stdout_write (user_marker @ '' You: '') s;
               user_input = str_strip line
           in if str_lower user_input \<in> set [''quit'', ''exit'', ''bye'']
              then Inr (leave s1)
              else (case map_of agents (current_agent s1) of
                      None \<Rightarrow> Inl (KeyError (current_agent s1))
                    | Some agent \<Rightarrow>
                        (case process_query agent (llm (llm_calls s1)) (user_context s1) user_input of
                           (response, context', tools) \<Rightarrow>
                             (let s2 = s1\<lparr>user_context := context',
                                          llm_calls := Suc (llm_calls s1),
                                          handled := handled s1 @ [(current_agent s1, user_input)],
                                          invoked := invoked s1 @ tools\<rparr>
                              in if current_agent s2 = ''triage''
                                 then (case response of
                                         Reply r \<Rightarrow>
                                           Inl (TypeError ''string indices must be integers'')
                                       | Routed result_issue_type message \<Rightarrow>
                                           (let s3 = py_print (green_marker @ '' ''
                                                       @ agent_name TriageAgent @ '': '' @ message) s2
                                            in if result_issue_type = IssueType_value BILLING
                                               then Inr (s3\<lparr>current_agent := ''billing''\<rparr>)
                                               else if result_issue_type = IssueType_value TECHNICAL
                                               then Inr (s3\<lparr>current_agent := ''technical''\<rparr>)
                                               else Inr (s3\<lparr>current_agent := ''general''\<rparr>)))
                                 else (let s3 = py_print (green_marker @ '' '' @ agent_name agent
                                                   @ '': '' @ str_response response) s2;
                                           s4 = py_print (blue_marker
                                                   @ '' Do you have any other questions? (yes/no)'') s3
                                       in Inr (s4\<lparr>point := At_continue\<rparr>))))))
      | At_continue \<Rightarrow>
          (let s1 = stdout_write (user_marker @ '' You: '') s;
               continue_session = str_lower (str_strip line)
           in if continue_session \<in> set [''no'', ''n'', ''quit'', ''exit'']
              then Inr (leave s1)
              else Inr ((py_print (blue_marker @ '' How can I help you further?'') s1)
                          \<lparr>point := At_input\<rparr>)))"

text \<open>The loop: the lines of the standard input, one step each. An exception ends the
  run.\<close>

fun run ::
  "(nat \<Rightarrow> string \<Rightarrow> py_exception + string) \<Rightarrow> session \<Rightarrow> string list
     \<Rightarrow> py_exception + session" where
  "run llm s [] = Inr s"
| "run llm s (line # lines) =
     (case step llm line s of
        Inl e \<Rightarrow> Inl e
      | Inr s' \<Rightarrow> run llm s' lines)"

text \<open>\<^verbatim>\<open>SupportSystem.__init__\<close>, lines 305 to 317, before anything has run.\<close>

definition SupportSystem_init :: session where
  "SupportSystem_init =
     \<lparr>current_agent = ''triage'', user_context = UserContext_default, point = At_input,
      stdout = [], llm_calls = 0, handled = [], invoked = []\<rparr>"

text \<open>Lines 375 and 376 of the main program set the name and the premium flag of the
  context; the source sets \<open>''Aamna''\<close> and \<open>True\<close>.\<close>

definition set_user :: "string \<Rightarrow> bool \<Rightarrow> session \<Rightarrow> session" where
  "set_user user premium s =
     s\<lparr>user_context := (user_context s)\<lparr>name := user, is_premium_user := premium\<rparr>\<rparr>"

text \<open>The three lines of welcome, lines 320 to 322.\<close>

definition print_welcome :: "session \<Rightarrow> session" where
  "print_welcome s =
     py_print (blue_marker @ '' Please describe your issue and we'll assist you.\<newline>'')
       (py_print (blue_marker @ '' Type 'quit' to exit at any time.'')
          (py_print (blue_marker @ '' Welcome to the Support Agent System!'') s))"

text \<open>\<^verbatim>\<open>SupportSystem.start\<close>, lines 319 to 367, on the lines of the standard input:
  the welcome, the loop, and \<^verbatim>\<open>EOFError\<close> when the input ends before the session
  does.\<close>

definition start ::
  "(nat \<Rightarrow> string \<Rightarrow> py_exception + string) \<Rightarrow> session \<Rightarrow> string list
     \<Rightarrow> py_exception + session" where
  "start llm s lines =
     (case run llm (print_welcome s) lines of
        Inl e \<Rightarrow> Inl e
      | Inr s' \<Rightarrow> if point s' = Ended then Inr s' else Inl EOFError)"

text \<open>The states of the session controller, as the specification names them, read off
  a session: the controller awaits triage while the current agent is the triage
  agent, and a specialist once another agent is bound.\<close>

datatype controller_state = AWAITING_TRIAGE | AWAITING_SPECIALIST | AWAITING_CONTINUE | ENDED

definition controller_state :: "session \<Rightarrow> controller_state" where
  "controller_state s =
     (case point s of
        Ended \<Rightarrow> ENDED
      | At_continue \<Rightarrow> AWAITING_CONTINUE
      | At_input \<Rightarrow>
          if current_agent s = ''triage'' then AWAITING_TRIAGE else AWAITING_SPECIALIST)"

text \<open>The action name as the specification words it: the text after the first colon,
  trimmed. It is compared with \<open>extract_tool_name\<close>, which is the code.\<close>

definition text_after_first_colon :: "string \<Rightarrow> string" where
  "text_after_first_colon t = str_strip (drop 1 (dropWhile (\<lambda>c. c \<noteq> CHR '':'') t))"

section \<open>Strings: splitting and the prefix\<close>

lemma str_startswith_iff: "str_startswith s p \<longleftrightarrow> (\<exists>r. s = p @ r)"
  unfolding str_startswith_def
  by (metis append_eq_conv_conj)

lemma str_split_not_Nil: "str_split s sep \<noteq> []"
  by (induction s) (auto split: list.splits)

lemma str_split_length: "length (str_split s sep) = Suc (length (filter (\<lambda>c. c = sep) s))"
  by (induction s) (auto split: list.splits simp: str_split_not_Nil)

lemma str_split_hd: "hd (str_split s sep) = takeWhile (\<lambda>c. c \<noteq> sep) s"
  by (induction s) (auto split: list.splits simp: str_split_not_Nil)

lemma str_split_append_sep:
  "sep \<notin> set p \<Longrightarrow> str_split (p @ sep # r) sep = p # str_split r sep"
  by (induction p) (auto)

lemma str_split_TOOL: "str_split (''TOOL:'' @ r) CHR '':'' = ''TOOL'' # str_split r CHR '':''"
  using str_split_append_sep [of "CHR '':''" "''TOOL''" r] by simp

lemma extract_tool_name_TOOL:
  "extract_tool_name (''TOOL:'' @ r) = Inr (str_strip (takeWhile (\<lambda>c. c \<noteq> CHR '':'') r))"
  unfolding extract_tool_name_def list_getitem_def
  by (simp only: str_split_TOOL) (simp add: str_split_length str_split_hd hd_conv_nth [symmetric] str_split_not_Nil)

lemma extract_tool_name_startswith:
  assumes "str_startswith t ''TOOL:''"
  shows "extract_tool_name t = Inr (str_strip (takeWhile (\<lambda>c. c \<noteq> CHR '':'') (drop 5 t)))"
proof -
  from assms obtain r where r: "t = ''TOOL:'' @ r"
    by (auto simp: str_startswith_iff)
  then have "drop 5 t = r" by simp
  with r show ?thesis by (simp only: extract_tool_name_TOOL)
qed

lemma str_split_colon: "sep \<in> set t \<Longrightarrow> 2 \<le> length (str_split t sep)"
proof -
  assume "sep \<in> set t"
  then have "filter (\<lambda>c. c = sep) t \<noteq> []"
    by (auto simp: filter_empty_conv)
  then have "0 < length (filter (\<lambda>c. c = sep) t)" by blast
  then show ?thesis unfolding str_split_length by linarith
qed

lemma text_after_first_colon_TOOL:
  "str_startswith t ''TOOL:'' \<Longrightarrow> text_after_first_colon t = str_strip (drop 5 t)"
  by (auto simp: str_startswith_iff text_after_first_colon_def)

text \<open>The definitions that evaluate the string operations on a literal.\<close>

lemmas str_eval = str_lower_def lower_char_def str_strip_def str_lstrip_def str_rstrip_def
  strip_leading.simps whitespace_def str_startswith_def extract_tool_name_def list_getitem_def

lemma str_strip_literals:
  "str_strip ''TOOL:process_refund'' = ''TOOL:process_refund''"
  "str_strip ''TOOL:restart_service'' = ''TOOL:restart_service''"
  "str_strip ''TOOL:'' = ''TOOL:''"
  by (simp_all add: str_eval)

lemma strip_leading_None:
  "find (\<lambda>w. w \<noteq> [] \<and> str_startswith s w) ws = None \<Longrightarrow> strip_leading ws s = s"
  by (simp add: strip_leading.simps)

lemma strip_leading_Some:
  "find (\<lambda>w. w \<noteq> [] \<and> str_startswith s w) ws = Some w
     \<Longrightarrow> strip_leading ws s = strip_leading ws (drop (length w) s)"
  by (simp add: strip_leading.simps)

lemma str_lstrip_TOOL: "str_lstrip (''TOOL:'' @ r) = ''TOOL:'' @ r"
  unfolding str_lstrip_def
  by (rule strip_leading_None) (simp add: whitespace_def str_startswith_def)

lemma colon_not_whitespace: "w \<in> set (map rev whitespace) \<Longrightarrow> CHR '':'' \<notin> set w"
  by (auto simp: whitespace_def)

lemma prefix_within:
  assumes "take (length w) (x @ c # y) = w" and "c \<notin> set w"
  shows "length w \<le> length x"
proof (rule ccontr)
  assume "\<not> length w \<le> length x"
  then have "length x < length w" by simp
  then have "take (length w) (x @ c # y) ! length x = c"
    by (simp add: nth_append)
  with assms(1) have "w ! length x = c" by simp
  with \<open>length x < length w\<close> have "c \<in> set w"
    using nth_mem by blast
  with assms(2) show False by simp
qed

lemma strip_leading_keeps_suffix:
  assumes "\<And>w. w \<in> set ws \<Longrightarrow> c \<notin> set w"
  shows "\<exists>x'. strip_leading ws (x @ c # y) = x' @ c # y"
proof (induction x rule: length_induct)
  case (1 x)
  show ?case
  proof (cases "find (\<lambda>w. w \<noteq> [] \<and> str_startswith (x @ c # y) w) ws")
    case None
    then show ?thesis by (auto simp: strip_leading_None)
  next
    case (Some w)
    then have w: "w \<in> set ws" "w \<noteq> []" "take (length w) (x @ c # y) = w"
      by (auto simp: find_Some_iff str_startswith_def)
    from prefix_within [OF w(3) assms [OF w(1)]] have le: "length w \<le> length x" .
    then have d: "drop (length w) (x @ c # y) = drop (length w) x @ c # y"
      by simp
    from le w(2) have "length (drop (length w) x) < length x"
      by (cases w) auto
    with 1 obtain x' where "strip_leading ws (drop (length w) x @ c # y) = x' @ c # y"
      by blast
    with Some d show ?thesis
      by (auto simp: strip_leading_Some)
  qed
qed

lemma str_rstrip_TOOL: "\<exists>r'. str_rstrip (''TOOL:'' @ r) = ''TOOL:'' @ r'"
proof -
  from strip_leading_keeps_suffix [of "map rev whitespace" "CHR '':''" "rev r" "''LOOT''"]
  obtain x' where "strip_leading (map rev whitespace) (rev r @ '':LOOT'') = x' @ '':LOOT''"
    using colon_not_whitespace by auto
  then have "str_rstrip (''TOOL:'' @ r) = ''TOOL:'' @ rev x'"
    by (simp add: str_rstrip_def)
  then show ?thesis by blast
qed

lemma str_startswith_strip:
  assumes "str_startswith t ''TOOL:''"
  shows "str_startswith (str_strip t) ''TOOL:''"
proof -
  from assms obtain r where r: "t = ''TOOL:'' @ r"
    by (auto simp: str_startswith_iff)
  then have "str_lstrip t = ''TOOL:'' @ r"
    by (simp only: str_lstrip_TOOL)
  with str_rstrip_TOOL [of r] show ?thesis
    by (auto simp: str_strip_def str_startswith_iff)
qed

lemma extract_tool_name_literals:
  "extract_tool_name ''TOOL:process_refund'' = Inr ''process_refund''"
  "extract_tool_name ''TOOL:restart_service'' = Inr ''restart_service''"
  "extract_tool_name ''TOOL:'' = Inr []"
  by (simp_all add: str_eval)

section \<open>The handlers on a response with the prefix\<close>

lemma BillingAgent_try_TOOL:
  assumes "str_startswith (str_strip text) ''TOOL:''"
    and "extract_tool_name (str_strip text) = Inr nm"
  shows "BillingAgent_try context query (Inr text) =
           Inr (case map_of BillingAgent_tools nm of
                  Some tool \<Rightarrow>
                    if BillingAgent_is_tool_enabled context nm
                    then (''Used '' @ nm @ '': '' @ func tool query, [nm])
                    else (BillingAgent_refusal, [])
                | None \<Rightarrow> (BillingAgent_refusal, []))"
  using assms by (simp add: BillingAgent_try_def Let_def split: option.splits)

lemma TechnicalAgent_try_TOOL:
  assumes "str_startswith (str_strip text) ''TOOL:''"
    and "extract_tool_name (str_strip text) = Inr nm"
  shows "TechnicalAgent_try context query (Inr text) =
           Inr (case map_of TechnicalAgent_tools nm of
                  Some tool \<Rightarrow>
                    if TechnicalAgent_is_tool_enabled context nm
                    then (''Used '' @ nm @ '': '' @ func tool query, [nm])
                    else (TechnicalAgent_refusal, [])
                | None \<Rightarrow> (TechnicalAgent_refusal, []))"
  using assms by (simp add: TechnicalAgent_try_def Let_def split: option.splits)

lemma GeneralAgent_try_TOOL:
  assumes "str_startswith (str_strip text) ''TOOL:''"
    and "extract_tool_name (str_strip text) = Inr nm"
  shows "GeneralAgent_try query (Inr text) =
           Inr (case map_of GeneralAgent_tools nm of
                  Some tool \<Rightarrow> (''Used '' @ nm @ '': '' @ func tool query, [nm])
                | None \<Rightarrow> (GeneralAgent_refusal, []))"
  using assms by (simp add: GeneralAgent_try_def Let_def split: option.splits)

lemma BillingAgent_invoked_enabled:
  assumes "nm \<in> set (snd (BillingAgent_process_query generate_content context query))"
  shows "nm \<in> fst ` set BillingAgent_tools \<and> BillingAgent_is_tool_enabled context nm"
proof -
  let ?r = "generate_content (specialist_prompt ''billing'' query (BillingAgent_get_available_tools context))"
  show ?thesis
  proof (cases ?r)
    case (Inl e)
    with assms show ?thesis
      by (simp add: BillingAgent_process_query_def BillingAgent_try_def Let_def)
  next
    case (Inr reply)
    show ?thesis
    proof (cases "str_startswith (str_strip reply) ''TOOL:''")
      case False
      with Inr assms show ?thesis
        by (simp add: BillingAgent_process_query_def BillingAgent_try_def Let_def)
    next
      case True
      then obtain n where n: "extract_tool_name (str_strip reply) = Inr n"
        by (auto dest: extract_tool_name_startswith)
      note t = BillingAgent_try_TOOL [OF True n]
      from assms Inr show ?thesis
        unfolding BillingAgent_process_query_def Let_def
        by (force simp: t image_iff split: option.splits if_splits dest!: map_of_SomeD)
    qed
  qed
qed

lemma TechnicalAgent_invoked_enabled:
  assumes "nm \<in> set (snd (TechnicalAgent_process_query generate_content context query))"
  shows "nm \<in> fst ` set TechnicalAgent_tools \<and> TechnicalAgent_is_tool_enabled context nm"
proof -
  let ?r = "generate_content (specialist_prompt ''technical'' query (TechnicalAgent_get_available_tools context))"
  show ?thesis
  proof (cases ?r)
    case (Inl e)
    with assms show ?thesis
      by (simp add: TechnicalAgent_process_query_def TechnicalAgent_try_def Let_def)
  next
    case (Inr reply)
    show ?thesis
    proof (cases "str_startswith (str_strip reply) ''TOOL:''")
      case False
      with Inr assms show ?thesis
        by (simp add: TechnicalAgent_process_query_def TechnicalAgent_try_def Let_def)
    next
      case True
      then obtain n where n: "extract_tool_name (str_strip reply) = Inr n"
        by (auto dest: extract_tool_name_startswith)
      note t = TechnicalAgent_try_TOOL [OF True n]
      from assms Inr show ?thesis
        unfolding TechnicalAgent_process_query_def Let_def
        by (force simp: t image_iff split: option.splits if_splits dest!: map_of_SomeD)
    qed
  qed
qed

lemma GeneralAgent_invoked_known:
  assumes "nm \<in> set (snd (GeneralAgent_process_query generate_content query))"
  shows "nm \<in> fst ` set GeneralAgent_tools"
proof -
  let ?r = "generate_content (specialist_prompt ''general'' query GeneralAgent_get_available_tools)"
  show ?thesis
  proof (cases ?r)
    case (Inl e)
    with assms show ?thesis
      by (simp add: GeneralAgent_process_query_def GeneralAgent_try_def Let_def)
  next
    case (Inr reply)
    show ?thesis
    proof (cases "str_startswith (str_strip reply) ''TOOL:''")
      case False
      with Inr assms show ?thesis
        by (simp add: GeneralAgent_process_query_def GeneralAgent_try_def Let_def)
    next
      case True
      then obtain n where n: "extract_tool_name (str_strip reply) = Inr n"
        by (auto dest: extract_tool_name_startswith)
      note t = GeneralAgent_try_TOOL [OF True n]
      from assms Inr show ?thesis
        unfolding GeneralAgent_process_query_def Let_def
        by (force simp: t image_iff split: option.splits if_splits dest!: map_of_SomeD)
    qed
  qed
qed

lemma map_of_None_tools: "nm \<notin> fst ` set tools \<Longrightarrow> map_of tools nm = None"
  by (simp add: map_of_eq_None_iff)

lemma extract_tool_name_total:
  "str_startswith t ''TOOL:'' \<Longrightarrow> \<exists>nm. extract_tool_name t = Inr nm"
  by (auto dest: extract_tool_name_startswith)

section \<open>The steps of a session\<close>

lemma map_of_agents:
  "map_of agents ''triage'' = Some TriageAgent"
  "map_of agents ''billing'' = Some BillingAgent"
  "map_of agents ''technical'' = Some TechnicalAgent"
  "map_of agents ''general'' = Some GeneralAgent"
  by (simp_all add: agents_def)

lemma map_of_agents_cases:
  assumes "map_of agents k = Some a"
  shows "(k = ''triage'' \<and> a = TriageAgent) \<or> (k = ''billing'' \<and> a = BillingAgent)
       \<or> (k = ''technical'' \<and> a = TechnicalAgent) \<or> (k = ''general'' \<and> a = GeneralAgent)"
  using assms by (auto simp: agents_def split: if_splits)

lemma process_query_specialist:
  assumes "a \<noteq> TriageAgent"
  shows "\<exists>r tools. process_query a generate_content ctx query = (Reply r, ctx, tools)"
  using assms by (cases a) (auto split: prod.splits)

lemma process_query_triage:
  "\<exists>it msg. process_query TriageAgent generate_content ctx query =
     (Routed it msg, ctx\<lparr>issue_type := Some it, previous_queries := previous_queries ctx @ [query]\<rparr>, [])"
  by (simp add: TriageAgent_process_query_def Let_def)

lemma leave_fields:
  "current_agent (leave s) = current_agent s"
  "user_context (leave s) = user_context s"
  "handled (leave s) = handled s"
  "invoked (leave s) = invoked s"
  "llm_calls (leave s) = llm_calls s"
  "point (leave s) = Ended"
  by (simp_all add: leave_def print_summary_def py_print_def stdout_write_def Let_def)

lemma leave_last:
  "last (stdout (leave s)) =
     ''   Queries Handled: '' @ str_nat (length (previous_queries (user_context s))) @ ''\<newline>''"
  by (simp add: leave_def print_summary_def py_print_def stdout_write_def Let_def)

lemma write_fields:
  "current_agent (stdout_write t s) = current_agent s"
  "user_context (stdout_write t s) = user_context s"
  "handled (stdout_write t s) = handled s"
  "invoked (stdout_write t s) = invoked s"
  "llm_calls (stdout_write t s) = llm_calls s"
  "point (stdout_write t s) = point s"
  "stdout (stdout_write t s) = stdout s @ [t]"
  by (simp_all add: stdout_write_def)

lemma print_fields:
  "current_agent (py_print t s) = current_agent s"
  "user_context (py_print t s) = user_context s"
  "handled (py_print t s) = handled s"
  "invoked (py_print t s) = invoked s"
  "llm_calls (py_print t s) = llm_calls s"
  "point (py_print t s) = point s"
  "stdout (py_print t s) = stdout s @ [t @ ''\<newline>'']"
  by (simp_all add: py_print_def stdout_write_def)

lemma step_Ended: "point s = Ended \<Longrightarrow> step llm line s = Inr s"
  by (simp add: step_def)

lemma step_At_continue:
  assumes "point s = At_continue"
  shows "step llm line s =
           (if str_lower (str_strip line) \<in> {''no'', ''n'', ''quit'', ''exit''}
            then Inr (leave (stdout_write (user_marker @ '' You: '') s))
            else Inr ((py_print (blue_marker @ '' How can I help you further?'')
                         (stdout_write (user_marker @ '' You: '') s))\<lparr>point := At_input\<rparr>))"
  using assms by (simp add: step_def Let_def)

lemma step_quit:
  assumes "point s = At_input" and "str_lower (str_strip line) \<in> {''quit'', ''exit'', ''bye''}"
  shows "step llm line s = Inr (leave (stdout_write (user_marker @ '' You: '') s))"
  using assms by (simp add: step_def Let_def)

lemma step_specialist_query:
  assumes "point s = At_input" and "str_lower (str_strip line) \<notin> {''quit'', ''exit'', ''bye''}"
    and "map_of agents (current_agent s) = Some a" and "current_agent s \<noteq> ''triage''"
  shows "step llm line s =
           Inr (s\<lparr>user_context := fst (snd (process_query a (llm (llm_calls s)) (user_context s) (str_strip line))),
                  llm_calls := Suc (llm_calls s),
                  handled := handled s @ [(current_agent s, str_strip line)],
                  invoked := invoked s
                     @ snd (snd (process_query a (llm (llm_calls s)) (user_context s) (str_strip line))),
                  stdout := stdout s @
                    [user_marker @ '' You: '',
                     green_marker @ '' '' @ agent_name a @ '': ''
                       @ str_response (fst (process_query a (llm (llm_calls s)) (user_context s) (str_strip line)))
                       @ ''\<newline>'',
                     blue_marker @ '' Do you have any other questions? (yes/no)'' @ ''\<newline>''],
                  point := At_continue\<rparr>)"
  using assms
  by (simp add: step_def Let_def write_fields py_print_def stdout_write_def split: prod.splits)

lemma step_triage_query:
  assumes "point s = At_input" and "str_lower (str_strip line) \<notin> {''quit'', ''exit'', ''bye''}"
    and "current_agent s = ''triage''"
  shows "\<exists>it msg. process_query TriageAgent (llm (llm_calls s)) (user_context s) (str_strip line)
                     = (Routed it msg,
                        (user_context s)\<lparr>issue_type := Some it,
                           previous_queries := previous_queries (user_context s) @ [str_strip line]\<rparr>, [])
          \<and> step llm line s =
           Inr (s\<lparr>user_context := (user_context s)\<lparr>issue_type := Some it,
                           previous_queries := previous_queries (user_context s) @ [str_strip line]\<rparr>,
                  llm_calls := Suc (llm_calls s),
                  handled := handled s @ [(''triage'', str_strip line)],
                  stdout := stdout s @
                    [user_marker @ '' You: '',
                     green_marker @ '' Triage Agent: '' @ msg @ ''\<newline>''],
                  current_agent := (if it = ''billing'' then ''billing''
                                    else if it = ''technical'' then ''technical'' else ''general'')\<rparr>)"
proof -
  obtain it msg where pq: "process_query TriageAgent (llm (llm_calls s)) (user_context s) (str_strip line)
                     = (Routed it msg,
                        (user_context s)\<lparr>issue_type := Some it,
                           previous_queries := previous_queries (user_context s) @ [str_strip line]\<rparr>, [])"
    using process_query_triage by blast
  have "step llm line s =
           Inr (s\<lparr>user_context := (user_context s)\<lparr>issue_type := Some it,
                           previous_queries := previous_queries (user_context s) @ [str_strip line]\<rparr>,
                  llm_calls := Suc (llm_calls s),
                  handled := handled s @ [(''triage'', str_strip line)],
                  stdout := stdout s @
                    [user_marker @ '' You: '',
                     green_marker @ '' Triage Agent: '' @ msg @ ''\<newline>''],
                  current_agent := (if it = ''billing'' then ''billing''
                                    else if it = ''technical'' then ''technical'' else ''general'')\<rparr>)"
    using assms
    by (simp add: step_def Let_def write_fields map_of_agents pq py_print_def stdout_write_def
             del: process_query.simps)
  with pq show ?thesis by blast
qed


lemma specialist_key:
  assumes "k \<in> {''billing'', ''technical'', ''general''}"
  shows "k \<noteq> ''triage'' \<and> (\<exists>a. map_of agents k = Some a \<and> a \<noteq> TriageAgent)"
  using assms by (auto simp: agents_def)

lemma step_specialist:
  assumes "current_agent s \<in> {''billing'', ''technical'', ''general''}"
  shows "\<exists>s'. step llm line s = Inr s' \<and> current_agent s' = current_agent s
              \<and> user_context s' = user_context s
              \<and> (\<exists>hs. handled s' = handled s @ hs \<and> (\<forall>h \<in> set hs. fst h = current_agent s))"
proof (cases "point s")
  case Ended
  then show ?thesis by (simp add: step_Ended)
next
  case At_continue
  then show ?thesis
    by (simp add: step_At_continue leave_fields write_fields print_fields)
next
  case At_input
  show ?thesis
  proof (cases "str_lower (str_strip line) \<in> {''quit'', ''exit'', ''bye''}")
    case True
    with At_input show ?thesis
      by (simp add: step_quit leave_fields write_fields)
  next
    case False
    from specialist_key [OF assms] obtain a
      where k: "current_agent s \<noteq> ''triage''" and a: "map_of agents (current_agent s) = Some a"
        and n: "a \<noteq> TriageAgent"
      by blast
    from process_query_specialist [OF n] obtain r tools
      where pq: "process_query a (llm (llm_calls s)) (user_context s) (str_strip line)
                   = (Reply r, user_context s, tools)"
      by blast
    show ?thesis
      by (simp add: step_specialist_query [OF At_input False a k] pq)
  qed
qed

lemma run_specialist:
  assumes "current_agent s \<in> {''billing'', ''technical'', ''general''}"
  shows "\<exists>s'. run llm s lines = Inr s' \<and> current_agent s' = current_agent s
              \<and> user_context s' = user_context s
              \<and> (\<exists>hs. handled s' = handled s @ hs \<and> (\<forall>h \<in> set hs. fst h = current_agent s))"
  using assms
proof (induction lines arbitrary: s)
  case Nil
  then show ?case by simp
next
  case (Cons line lines)
  from step_specialist [OF Cons.prems, of llm line] obtain s1 hs1
    where s1: "step llm line s = Inr s1" and c1: "current_agent s1 = current_agent s"
      and u1: "user_context s1 = user_context s"
      and h1: "handled s1 = handled s @ hs1" "\<forall>h \<in> set hs1. fst h = current_agent s"
    by blast
  from Cons.prems c1 have "current_agent s1 \<in> {''billing'', ''technical'', ''general''}"
    by simp
  from Cons.IH [OF this] obtain s2 hs2
    where s2: "run llm s1 lines = Inr s2" and c2: "current_agent s2 = current_agent s1"
      and u2: "user_context s2 = user_context s1"
      and h2: "handled s2 = handled s1 @ hs2" "\<forall>h \<in> set hs2. fst h = current_agent s1"
    by blast
  from h1 h2 c1 have "handled s2 = handled s @ (hs1 @ hs2) \<and> (\<forall>h \<in> set (hs1 @ hs2). fst h = current_agent s)"
    by auto
  with s1 s2 c1 c2 u1 u2 show ?case
    by (auto simp del: append_assoc)
qed

lemma controller_state_specialist:
  "current_agent s \<in> {''billing'', ''technical'', ''general''} \<Longrightarrow> controller_state s \<noteq> AWAITING_TRIAGE"
  by (auto simp: controller_state_def split: program_point.splits)

lemma step_KeyError:
  assumes "point s = At_input" and "str_lower (str_strip line) \<notin> {''quit'', ''exit'', ''bye''}"
    and "map_of agents (current_agent s) = None"
  shows "step llm line s = Inl (KeyError (current_agent s))"
  using assms by (simp add: step_def Let_def write_fields)

lemma step_inv:
  assumes st: "step llm line s = Inr s'"
    and q: "previous_queries (user_context s) = map snd (filter (\<lambda>h. fst h = ''triage'') (handled s))"
    and e: "point s = Ended \<longrightarrow> last (stdout s) =
              ''   Queries Handled: '' @ str_nat (length (previous_queries (user_context s))) @ ''\<newline>''"
  shows "previous_queries (user_context s') = map snd (filter (\<lambda>h. fst h = ''triage'') (handled s'))
       \<and> (point s' = Ended \<longrightarrow> last (stdout s') =
              ''   Queries Handled: '' @ str_nat (length (previous_queries (user_context s'))) @ ''\<newline>'')"
proof (cases "point s")
  case Ended
  with st q e show ?thesis by (simp add: step_Ended)
next
  case At_continue
  with st q show ?thesis
    by (auto simp: step_At_continue leave_fields leave_last write_fields print_fields
             split: if_splits)
next
  case At_input
  show ?thesis
  proof (cases "str_lower (str_strip line) \<in> {''quit'', ''exit'', ''bye''}")
    case True
    with At_input st q show ?thesis
      by (auto simp: step_quit leave_fields leave_last write_fields)
  next
    case False
    show ?thesis
    proof (cases "map_of agents (current_agent s)")
      case None
      with st At_input False show ?thesis by (simp add: step_KeyError)
    next
      case (Some a)
      show ?thesis
      proof (cases "current_agent s = ''triage''")
        case True
        from step_triage_query [OF At_input False True, of llm] st q True At_input show ?thesis
          by auto
      next
        case k: False
        with Some have n: "a \<noteq> TriageAgent"
          by (auto dest: map_of_agents_cases)
        from process_query_specialist [OF n] obtain r tools
          where pq: "process_query a (llm (llm_calls s)) (user_context s) (str_strip line)
                       = (Reply r, user_context s, tools)"
          by blast
        from st q k show ?thesis
          by (auto simp: step_specialist_query [OF At_input False Some k] pq)
      qed
    qed
  qed
qed

lemma run_inv:
  assumes "run llm s lines = Inr s'"
    and "previous_queries (user_context s) = map snd (filter (\<lambda>h. fst h = ''triage'') (handled s))"
    and "point s = Ended \<longrightarrow> last (stdout s) =
              ''   Queries Handled: '' @ str_nat (length (previous_queries (user_context s))) @ ''\<newline>''"
  shows "previous_queries (user_context s') = map snd (filter (\<lambda>h. fst h = ''triage'') (handled s'))
       \<and> (point s' = Ended \<longrightarrow> last (stdout s') =
              ''   Queries Handled: '' @ str_nat (length (previous_queries (user_context s'))) @ ''\<newline>'')"
  using assms
proof (induction lines arbitrary: s)
  case Nil
  then show ?case by simp
next
  case (Cons line lines)
  from Cons.prems(1) obtain s1 where s1: "step llm line s = Inr s1" and r: "run llm s1 lines = Inr s'"
    by (auto split: sum.splits)
  from step_inv [OF s1 Cons.prems(2) Cons.prems(3)] Cons.IH [OF r] show ?case
    by blast
qed

lemma run_Ended: "point s = Ended \<Longrightarrow> run llm s lines = Inr s"
  by (induction lines) (simp_all add: step_Ended)

lemma print_welcome_fields:
  "current_agent (print_welcome s) = current_agent s"
  "user_context (print_welcome s) = user_context s"
  "handled (print_welcome s) = handled s"
  "invoked (print_welcome s) = invoked s"
  "llm_calls (print_welcome s) = llm_calls s"
  "point (print_welcome s) = point s"
  by (simp_all add: print_welcome_def print_fields)

lemma process_query_premium:
  "is_premium_user (fst (snd (process_query a generate_content ctx query))) = is_premium_user ctx"
proof (cases "a = TriageAgent")
  case True
  with process_query_triage [of generate_content ctx query] show ?thesis by auto
next
  case False
  from process_query_specialist [OF this, of generate_content ctx query] show ?thesis by auto
qed

lemma process_query_no_refund:
  assumes "\<not> is_premium_user ctx"
  shows "''process_refund'' \<notin> set (snd (snd (process_query a generate_content ctx query)))"
proof (cases a)
  case TriageAgent
  with process_query_triage [of generate_content ctx query] show ?thesis by auto
next
  case BillingAgent
  from assms have "\<not> BillingAgent_is_tool_enabled (Some ctx) ''process_refund''"
    by (simp add: BillingAgent_is_tool_enabled_def)
  with BillingAgent_invoked_enabled [of "''process_refund''" generate_content "Some ctx" query]
  have "''process_refund'' \<notin> set (snd (BillingAgent_process_query generate_content (Some ctx) query))"
    by blast
  with BillingAgent show ?thesis by (auto split: prod.splits)
next
  case TechnicalAgent
  have "''process_refund'' \<notin> fst ` set TechnicalAgent_tools"
    by (simp add: TechnicalAgent_tools_def)
  with TechnicalAgent_invoked_enabled [of "''process_refund''" generate_content "Some ctx" query]
  have "''process_refund'' \<notin> set (snd (TechnicalAgent_process_query generate_content (Some ctx) query))"
    by blast
  with TechnicalAgent show ?thesis by (auto split: prod.splits)
next
  case GeneralAgent
  have "''process_refund'' \<notin> fst ` set GeneralAgent_tools"
    by (simp add: GeneralAgent_tools_def)
  with GeneralAgent_invoked_known [of "''process_refund''" generate_content query]
  have "''process_refund'' \<notin> set (snd (GeneralAgent_process_query generate_content query))"
    by blast
  with GeneralAgent show ?thesis by (auto split: prod.splits)
qed

lemma step_no_refund:
  assumes st: "step llm line s = Inr s'"
    and np: "\<not> is_premium_user (user_context s)"
    and ni: "''process_refund'' \<notin> set (invoked s)"
  shows "\<not> is_premium_user (user_context s') \<and> ''process_refund'' \<notin> set (invoked s')"
proof (cases "point s")
  case Ended
  with st np ni show ?thesis by (simp add: step_Ended)
next
  case At_continue
  with st np ni show ?thesis
    by (auto simp: step_At_continue leave_fields write_fields print_fields split: if_splits)
next
  case At_input
  show ?thesis
  proof (cases "str_lower (str_strip line) \<in> {''quit'', ''exit'', ''bye''}")
    case True
    with At_input st np ni show ?thesis
      by (auto simp: step_quit leave_fields write_fields)
  next
    case False
    show ?thesis
    proof (cases "map_of agents (current_agent s)")
      case None
      with st At_input False show ?thesis by (simp add: step_KeyError)
    next
      case (Some a)
      show ?thesis
      proof (cases "current_agent s = ''triage''")
        case True
        from step_triage_query [OF At_input False True, of llm] st np ni show ?thesis
          by auto
      next
        case k: False
        note pr = process_query_premium [of a "llm (llm_calls s)" "user_context s" "str_strip line"]
        note nr = process_query_no_refund [OF np, of a "llm (llm_calls s)" "str_strip line"]
        from st np ni pr nr show ?thesis
          by (auto simp: step_specialist_query [OF At_input False Some k])
      qed
    qed
  qed
qed

lemma run_no_refund:
  assumes "run llm s lines = Inr s'"
    and "\<not> is_premium_user (user_context s)"
    and "''process_refund'' \<notin> set (invoked s)"
  shows "\<not> is_premium_user (user_context s') \<and> ''process_refund'' \<notin> set (invoked s')"
  using assms
proof (induction lines arbitrary: s)
  case Nil
  then show ?case by simp
next
  case (Cons line lines)
  from Cons.prems(1) obtain s1 where s1: "step llm line s = Inr s1" and r: "run llm s1 lines = Inr s'"
    by (auto split: sum.splits)
  from step_no_refund [OF s1 Cons.prems(2) Cons.prems(3)] Cons.IH [OF r] show ?case
    by blast
qed

lemma run_snoc:
  "run llm s (lines @ [line]) =
     (case run llm s lines of Inl e \<Rightarrow> Inl e | Inr s1 \<Rightarrow> step llm line s1)"
  by (induction lines arbitrary: s) (auto split: sum.splits)

lemma step_bound_specialist:
  assumes p: "point s = At_input"
    and nq: "str_lower (str_strip line) \<notin> {''quit'', ''exit'', ''bye''}"
    and k: "current_agent s \<in> {''billing'', ''technical'', ''general''}"
  shows "\<exists>s'. step llm line s = Inr s'
           \<and> controller_state s' = AWAITING_CONTINUE
           \<and> current_agent s' = current_agent s
           \<and> user_context s' = user_context s
           \<and> handled s' = handled s @ [(current_agent s, str_strip line)]
           \<and> llm_calls s' = Suc (llm_calls s)
           \<and> (case (if current_agent s = ''billing''
                     then (''Billing Agent'',
                           BillingAgent_process_query (llm (llm_calls s))
                             (Some (user_context s)) (str_strip line))
                     else if current_agent s = ''technical''
                     then (''Technical Agent'',
                           TechnicalAgent_process_query (llm (llm_calls s))
                             (Some (user_context s)) (str_strip line))
                     else (''General Agent'',
                           GeneralAgent_process_query (llm (llm_calls s)) (str_strip line))) of
                 (agent, r, tools) \<Rightarrow>
                   invoked s' = invoked s @ tools
                   \<and> stdout s' = stdout s @
                        [user_marker @ '' You: '',
                         green_marker @ '' '' @ agent @ '': '' @ r @ ''\<newline>'',
                         blue_marker @ '' Do you have any other questions? (yes/no)\<newline>''])"
proof -
  from k have nt: "current_agent s \<noteq> ''triage''" by auto
  from k consider (b) "current_agent s = ''billing''" | (t) "current_agent s = ''technical''"
    | (g) "current_agent s = ''general''" by auto
  then show ?thesis
  proof cases
    case b
    then have a: "map_of agents (current_agent s) = Some BillingAgent"
      by (simp add: map_of_agents)
    from b show ?thesis
      by (simp add: step_specialist_query [OF p nq a nt] controller_state_def split: prod.splits)
  next
    case t
    then have a: "map_of agents (current_agent s) = Some TechnicalAgent"
      by (simp add: map_of_agents)
    from t show ?thesis
      by (simp add: step_specialist_query [OF p nq a nt] controller_state_def split: prod.splits)
  next
    case g
    then have a: "map_of agents (current_agent s) = Some GeneralAgent"
      by (simp add: map_of_agents)
    from g show ?thesis
      by (simp add: step_specialist_query [OF p nq a nt] controller_state_def split: prod.splits)
  qed
qed

lemma run_bound_specialist:
  assumes k: "current_agent s \<in> {''billing'', ''technical'', ''general''}"
    and r: "run llm s lines = Inr s1"
    and c: "current_agent s1 = current_agent s"
    and w: "controller_state s1 = AWAITING_SPECIALIST"
    and nq: "str_lower (str_strip line) \<notin> {''quit'', ''exit'', ''bye''}"
  shows "\<exists>s'. run llm s (lines @ [line]) = Inr s'
           \<and> controller_state s' = AWAITING_CONTINUE
           \<and> current_agent s' = current_agent s
           \<and> handled s' = handled s1 @ [(current_agent s, str_strip line)]
           \<and> llm_calls s' = Suc (llm_calls s1)
           \<and> (case (if current_agent s = ''billing''
                     then (''Billing Agent'',
                           BillingAgent_process_query (llm (llm_calls s1))
                             (Some (user_context s1)) (str_strip line))
                     else if current_agent s = ''technical''
                     then (''Technical Agent'',
                           TechnicalAgent_process_query (llm (llm_calls s1))
                             (Some (user_context s1)) (str_strip line))
                     else (''General Agent'',
                           GeneralAgent_process_query (llm (llm_calls s1)) (str_strip line))) of
                 (agent, r, tools) \<Rightarrow>
                   invoked s' = invoked s1 @ tools
                   \<and> stdout s' = stdout s1 @
                        [user_marker @ '' You: '',
                         green_marker @ '' '' @ agent @ '': '' @ r @ ''\<newline>'',
                         blue_marker @ '' Do you have any other questions? (yes/no)\<newline>''])"
proof -
  from w have p: "point s1 = At_input"
    by (auto simp: controller_state_def split: program_point.splits)
  from k c have k1: "current_agent s1 \<in> {''billing'', ''technical'', ''general''}" by simp
  have e: "run llm s (lines @ [line]) = step llm line s1"
    by (simp add: run_snoc r)
  from step_bound_specialist [OF p nq k1, of llm] obtain s'
    where f: "step llm line s1 = Inr s'"
      "controller_state s' = AWAITING_CONTINUE"
      "current_agent s' = current_agent s1"
      "handled s' = handled s1 @ [(current_agent s1, str_strip line)]"
      "llm_calls s' = Suc (llm_calls s1)"
      "(case (if current_agent s1 = ''billing''
                     then (''Billing Agent'',
                           BillingAgent_process_query (llm (llm_calls s1))
                             (Some (user_context s1)) (str_strip line))
                     else if current_agent s1 = ''technical''
                     then (''Technical Agent'',
                           TechnicalAgent_process_query (llm (llm_calls s1))
                             (Some (user_context s1)) (str_strip line))
                     else (''General Agent'',
                           GeneralAgent_process_query (llm (llm_calls s1)) (str_strip line))) of
                 (agent, r, tools) \<Rightarrow>
                   invoked s' = invoked s1 @ tools
                   \<and> stdout s' = stdout s1 @
                        [user_marker @ '' You: '',
                         green_marker @ '' '' @ agent @ '': '' @ r @ ''\<newline>'',
                         blue_marker @ '' Do you have any other questions? (yes/no)\<newline>''])"
    by (elim exE conjE)
  show ?thesis
    unfolding e
    by (rule exI [of _ s'], intro conjI) (rule f [unfolded c])+
qed

section \<open>Triage\<close>

text \<open>
  Claim C1. When the classifier call fails, or returns a text that, trimmed and in lower
  case, is none of \<open>billing\<close>, \<open>technical\<close>, \<open>general\<close>, the triage agent resolves
  the category \<open>general\<close> and records it, with the query, in the bound context. For
  every classifier the resolved category is one of the three tokens, and a bound context
  holds it afterwards. The function has no exception in its result type: every
  statement of the source that can raise stands inside the \<^verbatim>\<open>try\<close> of line 69.
\<close>

theorem triage_falls_back_to_general:
  "(generate_content (TriageAgent_prompt query) = Inl e
      \<or> (generate_content (TriageAgent_prompt query) = Inr reply
           \<and> str_lower (str_strip reply) \<notin> {''billing'', ''technical'', ''general''})
    \<longrightarrow> TriageAgent_process_query generate_content context query =
          ((''general'',
            ''Your query has been categorized as: general. Transferring you to the general specialist.''),
           map_option (\<lambda>c. c\<lparr>issue_type := Some ''general'',
                               previous_queries := previous_queries c @ [query]\<rparr>) context))
   \<and> fst (fst (TriageAgent_process_query generate_content context query))
         \<in> {''billing'', ''technical'', ''general''}
   \<and> map_option issue_type (snd (TriageAgent_process_query generate_content context query))
         = map_option (\<lambda>c. Some (fst (fst (TriageAgent_process_query generate_content context query))))
             context"
  by (cases "generate_content (TriageAgent_prompt query)"; cases "context")
     (auto simp: TriageAgent_process_query_def TriageAgent_try_def IssueType_members_def Let_def)

theorem triage_falls_back_to_general_witness:
  "str_lower (str_strip ''  Refunds?  '') \<notin> {''billing'', ''technical'', ''general''}
   \<and> TriageAgent_process_query (\<lambda>p. Inr ''  Refunds?  '') (Some UserContext_default) ''hi'' =
       ((''general'',
         ''Your query has been categorized as: general. Transferring you to the general specialist.''),
        map_option (\<lambda>c. c\<lparr>issue_type := Some ''general'',
                            previous_queries := previous_queries c @ [''hi'']\<rparr>)
          (Some UserContext_default))
   \<and> fst (fst (TriageAgent_process_query (\<lambda>p. Inr (''Billing'' @ [CHR 0xC2, CHR 0xA0]))
                  (Some UserContext_default) ''hi'')) = ''billing''"
proof (intro conjI)
  show h: "str_lower (str_strip ''  Refunds?  '') \<notin> {''billing'', ''technical'', ''general''}"
    by (simp add: str_eval)
  from h triage_falls_back_to_general
         [of "\<lambda>p. Inr ''  Refunds?  ''" "''hi''" undefined "''  Refunds?  ''"
             "Some UserContext_default"]
  show "TriageAgent_process_query (\<lambda>p. Inr ''  Refunds?  '') (Some UserContext_default) ''hi'' =
       ((''general'',
         ''Your query has been categorized as: general. Transferring you to the general specialist.''),
        map_option (\<lambda>c. c\<lparr>issue_type := Some ''general'',
                            previous_queries := previous_queries c @ [''hi'']\<rparr>)
          (Some UserContext_default))"
    by blast
  show "fst (fst (TriageAgent_process_query (\<lambda>p. Inr (''Billing'' @ [CHR 0xC2, CHR 0xA0]))
                  (Some UserContext_default) ''hi'')) = ''billing''"
    by (simp add: TriageAgent_process_query_def TriageAgent_try_def IssueType_members_def
                  Let_def str_eval)
qed

section \<open>The refund and the premium flag\<close>

text \<open>
  Claim C2. With a context bound, the billing handler lists \<open>process_refund\<close> among the
  available tools exactly when the premium flag is true; on the classifier response
  \<open>TOOL:process_refund\<close> it calls the refund function and answers with its text when
  the flag is true, and answers with the refusal, calling nothing, when it is false;
  and when the flag is false no classifier response makes it call the refund function.
  In a session whose premium flag is false, no lines and no classifier make any agent
  call it: it is not among the tools invoked at the end of any run.
\<close>

theorem refund_gated_by_premium:
  "(''process_refund'' \<in> set (BillingAgent_get_available_tools (Some c)) \<longleftrightarrow> is_premium_user c)
   \<and> (generate_content (specialist_prompt ''billing'' query (BillingAgent_get_available_tools (Some c)))
         = Inr reply \<and> str_strip reply = ''TOOL:process_refund''
       \<longrightarrow> BillingAgent_process_query generate_content (Some c) query =
             (if is_premium_user c
              then (''Used process_refund: '' @ process_refund query, [''process_refund''])
              else (BillingAgent_refusal, [])))
   \<and> (\<not> is_premium_user c
       \<longrightarrow> ''process_refund'' \<notin> set (snd (BillingAgent_process_query generate_content (Some c) query)))
   \<and> (\<not> is_premium_user (user_context s) \<and> ''process_refund'' \<notin> set (invoked s)
        \<and> run llm s lines = Inr s'
       \<longrightarrow> ''process_refund'' \<notin> set (invoked s'))"
proof (intro conjI impI)
  show "''process_refund'' \<in> set (BillingAgent_get_available_tools (Some c)) \<longleftrightarrow> is_premium_user c"
    by (simp add: BillingAgent_get_available_tools_def BillingAgent_tools_def
                  BillingAgent_is_tool_enabled_def)
next
  assume a: "generate_content (specialist_prompt ''billing'' query (BillingAgent_get_available_tools (Some c)))
         = Inr reply \<and> str_strip reply = ''TOOL:process_refund''"
  then have sw: "str_startswith (str_strip reply) ''TOOL:''"
    by (simp add: str_startswith_def)
  from a have ex: "extract_tool_name (str_strip reply) = Inr ''process_refund''"
    by (simp add: extract_tool_name_literals)
  have m: "map_of BillingAgent_tools ''process_refund''
             = Some \<lparr>func = process_refund, description = ''Process a refund for the user''\<rparr>"
    by (simp add: BillingAgent_tools_def)
  from a show "BillingAgent_process_query generate_content (Some c) query =
             (if is_premium_user c
              then (''Used process_refund: '' @ process_refund query, [''process_refund''])
              else (BillingAgent_refusal, []))"
    unfolding BillingAgent_process_query_def Let_def
    by (simp add: BillingAgent_try_TOOL [OF sw ex] m BillingAgent_is_tool_enabled_def)
next
  assume "\<not> is_premium_user c"
  then have "\<not> BillingAgent_is_tool_enabled (Some c) ''process_refund''"
    by (simp add: BillingAgent_is_tool_enabled_def)
  then show "''process_refund'' \<notin> set (snd (BillingAgent_process_query generate_content (Some c) query))"
    using BillingAgent_invoked_enabled by blast
next
  assume "\<not> is_premium_user (user_context s) \<and> ''process_refund'' \<notin> set (invoked s)
          \<and> run llm s lines = Inr s'"
  then have r: "run llm s lines = Inr s'" and np: "\<not> is_premium_user (user_context s)"
    and ni: "''process_refund'' \<notin> set (invoked s)"
    by simp_all
  from run_no_refund [OF r np ni] show "''process_refund'' \<notin> set (invoked s')"
    by simp
qed

theorem refund_gated_by_premium_witness:
  "\<not> is_premium_user UserContext_default
   \<and> ''process_refund''
         \<notin> set (snd (BillingAgent_process_query (\<lambda>p. Inr ''TOOL:process_refund'')
                        (Some UserContext_default) ''refund me''))
   \<and> BillingAgent_process_query (\<lambda>p. Inr ''TOOL:process_refund'')
         (Some UserContext_default) ''refund me'' = (BillingAgent_refusal, [])
   \<and> is_premium_user (UserContext_default\<lparr>is_premium_user := True\<rparr>)
   \<and> BillingAgent_process_query (\<lambda>p. Inr ''TOOL:process_refund'')
         (Some (UserContext_default\<lparr>is_premium_user := True\<rparr>)) ''refund me'' =
       (''Used process_refund: '' @ process_refund ''refund me'', [''process_refund''])
   \<and> \<not> is_premium_user (user_context SupportSystem_init)
   \<and> ''process_refund'' \<notin> set (invoked SupportSystem_init)
   \<and> (\<exists>s'. run (\<lambda>n p. if n = 0 then Inr ''billing'' else Inr ''TOOL:process_refund'')
               SupportSystem_init [''I was charged twice this month'', ''refund me'']
             = Inr s'
            \<and> handled s' = [(''triage'', ''I was charged twice this month''),
                            (''billing'', ''refund me'')]
            \<and> ''process_refund'' \<notin> set (invoked s'))
   \<and> (\<exists>s'. run (\<lambda>n p. if n = 0 then Inr ''billing'' else Inr ''TOOL:process_refund'')
               (set_user ''Aamna'' True SupportSystem_init)
               [''I was charged twice this month'', ''refund me'']
             = Inr s'
            \<and> invoked s' = [''process_refund''])"
proof -
  let ?llm = "\<lambda>n p. if n = (0::nat) then Inr ''billing'' else Inr ''TOOL:process_refund''"
  let ?lines = "[''I was charged twice this month'', ''refund me'']"
  have f: "\<not> is_premium_user UserContext_default"
    by (simp add: UserContext_default_def)
  have t: "is_premium_user (UserContext_default\<lparr>is_premium_user := True\<rparr>)"
    by simp
  note a = refund_gated_by_premium
             [where c = UserContext_default and generate_content = "\<lambda>p. Inr ''TOOL:process_refund''"
                and query = "''refund me''" and reply = "''TOOL:process_refund''"]
  note b = refund_gated_by_premium
             [where c = "UserContext_default\<lparr>is_premium_user := True\<rparr>"
                and generate_content = "\<lambda>p. Inr ''TOOL:process_refund''"
                and query = "''refund me''" and reply = "''TOOL:process_refund''"]
  from a f have h1: "''process_refund''
         \<notin> set (snd (BillingAgent_process_query (\<lambda>p. Inr ''TOOL:process_refund'')
                        (Some UserContext_default) ''refund me''))"
    by blast
  from a f have h2: "BillingAgent_process_query (\<lambda>p. Inr ''TOOL:process_refund'')
         (Some UserContext_default) ''refund me'' = (BillingAgent_refusal, [])"
    by (simp add: str_strip_literals)
  from b t have h3: "BillingAgent_process_query (\<lambda>p. Inr ''TOOL:process_refund'')
         (Some (UserContext_default\<lparr>is_premium_user := True\<rparr>)) ''refund me'' =
       (''Used process_refund: '' @ process_refund ''refund me'', [''process_refund''])"
    by (simp add: str_strip_literals)
  have np: "\<not> is_premium_user (user_context SupportSystem_init)"
    and ni: "''process_refund'' \<notin> set (invoked SupportSystem_init)"
    by (simp_all add: SupportSystem_init_def UserContext_default_def)
  have "\<exists>s'. run ?llm SupportSystem_init ?lines = Inr s'
            \<and> handled s' = [(''triage'', ''I was charged twice this month''),
                            (''billing'', ''refund me'')]"
    by (simp add: step_def Let_def SupportSystem_init_def map_of_agents
                  TriageAgent_process_query_def TriageAgent_try_def IssueType_members_def
                  BillingAgent_process_query_def BillingAgent_try_def BillingAgent_tools_def
                  BillingAgent_is_tool_enabled_def UserContext_default_def
                  str_eval write_fields print_fields)
  then obtain s1 where r1: "run ?llm SupportSystem_init ?lines = Inr s1"
    and d1: "handled s1 = [(''triage'', ''I was charged twice this month''),
                            (''billing'', ''refund me'')]"
    by blast
  from refund_gated_by_premium
         [where s = SupportSystem_init and llm = ?llm and lines = ?lines and s' = s1] np ni r1
  have "''process_refund'' \<notin> set (invoked s1)"
    by blast
  with r1 d1 have h4: "\<exists>s'. run ?llm SupportSystem_init ?lines = Inr s'
            \<and> handled s' = [(''triage'', ''I was charged twice this month''),
                            (''billing'', ''refund me'')]
            \<and> ''process_refund'' \<notin> set (invoked s')"
    by blast
  have h5: "\<exists>s'. run ?llm (set_user ''Aamna'' True SupportSystem_init) ?lines = Inr s'
            \<and> invoked s' = [''process_refund'']"
    by (simp add: step_def Let_def SupportSystem_init_def set_user_def map_of_agents
                  TriageAgent_process_query_def TriageAgent_try_def IssueType_members_def
                  BillingAgent_process_query_def BillingAgent_try_def BillingAgent_tools_def
                  BillingAgent_is_tool_enabled_def UserContext_default_def
                  str_eval write_fields print_fields)
  from f h1 h2 t h3 np ni h4 h5 show ?thesis
    by (intro conjI)
qed

section \<open>The restart and the category\<close>

text \<open>
  Claim C3. With a context bound, the technical handler lists \<open>restart_service\<close>
  among the available tools exactly when the current category of the context is
  \<open>technical\<close>; on the classifier response \<open>TOOL:restart_service\<close> it calls the
  restart function and answers with its text when the category is \<open>technical\<close>, and
  answers with the refusal, calling nothing, for every other value of the category, the
  unset one included; and for every other value no classifier response makes it call
  the restart function.
\<close>

theorem restart_gated_by_category:
  "(''restart_service'' \<in> set (TechnicalAgent_get_available_tools (Some c))
      \<longleftrightarrow> issue_type c = Some ''technical'')
   \<and> (generate_content (specialist_prompt ''technical'' query
                           (TechnicalAgent_get_available_tools (Some c))) = Inr reply
        \<and> str_strip reply = ''TOOL:restart_service''
       \<longrightarrow> TechnicalAgent_process_query generate_content (Some c) query =
             (if issue_type c = Some ''technical''
              then (''Used restart_service: '' @ restart_service query, [''restart_service''])
              else (TechnicalAgent_refusal, [])))
   \<and> (issue_type c \<noteq> Some ''technical''
       \<longrightarrow> ''restart_service''
             \<notin> set (snd (TechnicalAgent_process_query generate_content (Some c) query)))"
proof (intro conjI impI)
  show "''restart_service'' \<in> set (TechnicalAgent_get_available_tools (Some c))
          \<longleftrightarrow> issue_type c = Some ''technical''"
    by (simp add: TechnicalAgent_get_available_tools_def TechnicalAgent_tools_def
                  TechnicalAgent_is_tool_enabled_def)
next
  assume a: "generate_content (specialist_prompt ''technical'' query
                           (TechnicalAgent_get_available_tools (Some c))) = Inr reply
             \<and> str_strip reply = ''TOOL:restart_service''"
  then have sw: "str_startswith (str_strip reply) ''TOOL:''"
    by (simp add: str_startswith_def)
  from a have ex: "extract_tool_name (str_strip reply) = Inr ''restart_service''"
    by (simp add: extract_tool_name_literals)
  have m: "map_of TechnicalAgent_tools ''restart_service''
             = Some \<lparr>func = restart_service, description = ''Restart a service for the user''\<rparr>"
    by (simp add: TechnicalAgent_tools_def)
  from a show "TechnicalAgent_process_query generate_content (Some c) query =
             (if issue_type c = Some ''technical''
              then (''Used restart_service: '' @ restart_service query, [''restart_service''])
              else (TechnicalAgent_refusal, []))"
    unfolding TechnicalAgent_process_query_def Let_def
    by (simp add: TechnicalAgent_try_TOOL [OF sw ex] m TechnicalAgent_is_tool_enabled_def)
next
  assume "issue_type c \<noteq> Some ''technical''"
  then have "\<not> TechnicalAgent_is_tool_enabled (Some c) ''restart_service''"
    by (simp add: TechnicalAgent_is_tool_enabled_def)
  then show "''restart_service''
             \<notin> set (snd (TechnicalAgent_process_query generate_content (Some c) query))"
    using TechnicalAgent_invoked_enabled by blast
qed

theorem restart_gated_by_category_witness:
  "issue_type UserContext_default \<noteq> Some ''technical''
   \<and> ''restart_service''
         \<notin> set (snd (TechnicalAgent_process_query (\<lambda>p. Inr ''TOOL:restart_service'')
                        (Some UserContext_default) ''it hangs''))
   \<and> TechnicalAgent_process_query (\<lambda>p. Inr ''TOOL:restart_service'')
         (Some UserContext_default) ''it hangs'' = (TechnicalAgent_refusal, [])
   \<and> issue_type (UserContext_default\<lparr>issue_type := Some ''billing''\<rparr>) \<noteq> Some ''technical''
   \<and> TechnicalAgent_process_query (\<lambda>p. Inr ''TOOL:restart_service'')
         (Some (UserContext_default\<lparr>issue_type := Some ''billing''\<rparr>)) ''it hangs''
         = (TechnicalAgent_refusal, [])
   \<and> issue_type (UserContext_default\<lparr>issue_type := Some ''technical''\<rparr>) = Some ''technical''
   \<and> TechnicalAgent_process_query (\<lambda>p. Inr ''TOOL:restart_service'')
         (Some (UserContext_default\<lparr>issue_type := Some ''technical''\<rparr>)) ''it hangs'' =
       (''Used restart_service: '' @ restart_service ''it hangs'', [''restart_service''])"
proof -
  have f: "issue_type UserContext_default \<noteq> Some ''technical''"
    by (simp add: UserContext_default_def)
  have g: "issue_type (UserContext_default\<lparr>issue_type := Some ''billing''\<rparr>) \<noteq> Some ''technical''"
    by simp
  have t: "issue_type (UserContext_default\<lparr>issue_type := Some ''technical''\<rparr>) = Some ''technical''"
    by simp
  note a = restart_gated_by_category
             [where c = UserContext_default and generate_content = "\<lambda>p. Inr ''TOOL:restart_service''"
                and query = "''it hangs''" and reply = "''TOOL:restart_service''"]
  note b = restart_gated_by_category
             [where c = "UserContext_default\<lparr>issue_type := Some ''billing''\<rparr>"
                and generate_content = "\<lambda>p. Inr ''TOOL:restart_service''"
                and query = "''it hangs''" and reply = "''TOOL:restart_service''"]
  note c = restart_gated_by_category
             [where c = "UserContext_default\<lparr>issue_type := Some ''technical''\<rparr>"
                and generate_content = "\<lambda>p. Inr ''TOOL:restart_service''"
                and query = "''it hangs''" and reply = "''TOOL:restart_service''"]
  from a b c f g t show ?thesis
    by (simp add: str_strip_literals)
qed

section \<open>Refusals\<close>

text \<open>
  Claim C4. When the text of the classifier, trimmed, starts with \<open>TOOL:\<close> and the name
  extracted from it is not a key of the handler's tools, or is a tool that the handler's
  gate disables for the context, the handler answers with its fixed refusal and calls
  no tool. This holds for the billing and the technical handler, and for the general
  handler, which has no gate, when the name is not a key of its tools. A text of the
  classifier that starts with \<open>TOOL:\<close> before it is trimmed still does so afterwards
  (lemma \<open>str_startswith_strip\<close>).
\<close>

theorem disabled_or_unknown_tool_refused:
  "(generate_content (specialist_prompt ''billing'' query (BillingAgent_get_available_tools cx))
        = Inr reply
      \<and> str_startswith (str_strip reply) ''TOOL:''
      \<and> extract_tool_name (str_strip reply) = Inr nm
      \<and> (nm \<notin> fst ` set BillingAgent_tools \<or> \<not> BillingAgent_is_tool_enabled cx nm)
    \<longrightarrow> BillingAgent_process_query generate_content cx query = (BillingAgent_refusal, []))
   \<and> (generate_content (specialist_prompt ''technical'' query
                           (TechnicalAgent_get_available_tools cx)) = Inr reply
      \<and> str_startswith (str_strip reply) ''TOOL:''
      \<and> extract_tool_name (str_strip reply) = Inr nm
      \<and> (nm \<notin> fst ` set TechnicalAgent_tools \<or> \<not> TechnicalAgent_is_tool_enabled cx nm)
    \<longrightarrow> TechnicalAgent_process_query generate_content cx query
          = (TechnicalAgent_refusal, []))
   \<and> (generate_content (specialist_prompt ''general'' query GeneralAgent_get_available_tools)
        = Inr reply
      \<and> str_startswith (str_strip reply) ''TOOL:''
      \<and> extract_tool_name (str_strip reply) = Inr nm
      \<and> nm \<notin> fst ` set GeneralAgent_tools
    \<longrightarrow> GeneralAgent_process_query generate_content query = (GeneralAgent_refusal, []))"
proof (intro conjI impI)
  assume a: "generate_content (specialist_prompt ''billing'' query (BillingAgent_get_available_tools cx))
        = Inr reply
      \<and> str_startswith (str_strip reply) ''TOOL:''
      \<and> extract_tool_name (str_strip reply) = Inr nm
      \<and> (nm \<notin> fst ` set BillingAgent_tools \<or> \<not> BillingAgent_is_tool_enabled cx nm)"
  then have sw: "str_startswith (str_strip reply) ''TOOL:''"
    and ex: "extract_tool_name (str_strip reply) = Inr nm" by simp_all
  from a show "BillingAgent_process_query generate_content cx query = (BillingAgent_refusal, [])"
    unfolding BillingAgent_process_query_def Let_def
    by (auto simp: BillingAgent_try_TOOL [OF sw ex] map_of_None_tools split: option.splits)
next
  assume a: "generate_content (specialist_prompt ''technical'' query
                           (TechnicalAgent_get_available_tools cx)) = Inr reply
      \<and> str_startswith (str_strip reply) ''TOOL:''
      \<and> extract_tool_name (str_strip reply) = Inr nm
      \<and> (nm \<notin> fst ` set TechnicalAgent_tools \<or> \<not> TechnicalAgent_is_tool_enabled cx nm)"
  then have sw: "str_startswith (str_strip reply) ''TOOL:''"
    and ex: "extract_tool_name (str_strip reply) = Inr nm" by simp_all
  from a show "TechnicalAgent_process_query generate_content cx query = (TechnicalAgent_refusal, [])"
    unfolding TechnicalAgent_process_query_def Let_def
    by (auto simp: TechnicalAgent_try_TOOL [OF sw ex] map_of_None_tools split: option.splits)
next
  assume a: "generate_content (specialist_prompt ''general'' query GeneralAgent_get_available_tools)
        = Inr reply
      \<and> str_startswith (str_strip reply) ''TOOL:''
      \<and> extract_tool_name (str_strip reply) = Inr nm
      \<and> nm \<notin> fst ` set GeneralAgent_tools"
  then have sw: "str_startswith (str_strip reply) ''TOOL:''"
    and ex: "extract_tool_name (str_strip reply) = Inr nm" by simp_all
  from a show "GeneralAgent_process_query generate_content query = (GeneralAgent_refusal, [])"
    unfolding GeneralAgent_process_query_def Let_def
    by (auto simp: GeneralAgent_try_TOOL [OF sw ex] map_of_None_tools split: option.splits)
qed


theorem disabled_or_unknown_tool_refused_witness:
  "str_startswith (str_strip (''TOOL:'' @ [CHR 0xC2, CHR 0xA0] @ ''process_refund'')) ''TOOL:''
   \<and> extract_tool_name (str_strip (''TOOL:'' @ [CHR 0xC2, CHR 0xA0] @ ''process_refund'')) = Inr ''process_refund''
   \<and> \<not> BillingAgent_is_tool_enabled (Some UserContext_default) ''process_refund''
   \<and> BillingAgent_process_query (\<lambda>p. Inr (''TOOL:'' @ [CHR 0xC2, CHR 0xA0] @ ''process_refund'')) (Some UserContext_default)
         ''refund me'' = (BillingAgent_refusal, [])
   \<and> str_startswith (str_strip '' TOOL:reboot '') ''TOOL:''
   \<and> extract_tool_name (str_strip '' TOOL:reboot '') = Inr ''reboot''
   \<and> ''reboot'' \<notin> fst ` set TechnicalAgent_tools
   \<and> TechnicalAgent_process_query (\<lambda>p. Inr '' TOOL:reboot '') (Some UserContext_default)
         ''it hangs'' = (TechnicalAgent_refusal, [])
   \<and> ''reboot'' \<notin> fst ` set GeneralAgent_tools
   \<and> GeneralAgent_process_query (\<lambda>p. Inr '' TOOL:reboot '') ''it hangs''
         = (GeneralAgent_refusal, [])"
proof -
  have b1: "str_startswith (str_strip (''TOOL:'' @ [CHR 0xC2, CHR 0xA0] @ ''process_refund'')) ''TOOL:''"
    and b2: "extract_tool_name (str_strip (''TOOL:'' @ [CHR 0xC2, CHR 0xA0] @ ''process_refund'')) = Inr ''process_refund''"
    and b3: "\<not> BillingAgent_is_tool_enabled (Some UserContext_default) ''process_refund''"
    by (simp_all add: str_eval BillingAgent_is_tool_enabled_def UserContext_default_def)
  have t1: "str_startswith (str_strip '' TOOL:reboot '') ''TOOL:''"
    and t2: "extract_tool_name (str_strip '' TOOL:reboot '') = Inr ''reboot''"
    and t3: "''reboot'' \<notin> fst ` set TechnicalAgent_tools"
    and g3: "''reboot'' \<notin> fst ` set GeneralAgent_tools"
    by (simp_all add: str_eval TechnicalAgent_tools_def GeneralAgent_tools_def)
  note b = disabled_or_unknown_tool_refused
             [where generate_content = "\<lambda>p. Inr (''TOOL:'' @ [CHR 0xC2, CHR 0xA0] @ ''process_refund'')"
                and reply = "''TOOL:'' @ [CHR 0xC2, CHR 0xA0] @ ''process_refund''" and nm = "''process_refund''"
                and query = "''refund me''" and cx = "Some UserContext_default",
              THEN conjunct1, THEN mp]
  note t = disabled_or_unknown_tool_refused
             [where generate_content = "\<lambda>p. Inr '' TOOL:reboot ''"
                and reply = "'' TOOL:reboot ''" and nm = "''reboot''"
                and query = "''it hangs''" and cx = "Some UserContext_default",
              THEN conjunct2, THEN conjunct1, THEN mp]
  note g = disabled_or_unknown_tool_refused
             [where generate_content = "\<lambda>p. Inr '' TOOL:reboot ''"
                and reply = "'' TOOL:reboot ''" and nm = "''reboot''"
                and query = "''it hangs''",
              THEN conjunct2, THEN conjunct2, THEN mp]
  from b b1 b2 b3 have cb: "BillingAgent_process_query (\<lambda>p. Inr (''TOOL:'' @ [CHR 0xC2, CHR 0xA0] @ ''process_refund''))
         (Some UserContext_default) ''refund me'' = (BillingAgent_refusal, [])"
    by blast
  from t t1 t2 t3 have ct: "TechnicalAgent_process_query (\<lambda>p. Inr '' TOOL:reboot '')
         (Some UserContext_default) ''it hangs'' = (TechnicalAgent_refusal, [])"
    by blast
  from g t1 t2 g3 have cg: "GeneralAgent_process_query (\<lambda>p. Inr '' TOOL:reboot '') ''it hangs''
         = (GeneralAgent_refusal, [])"
    by blast
  from b1 b2 b3 cb t1 t2 t3 ct g3 cg show ?thesis
    by (intro conjI)
qed

section \<open>The name of the action\<close>

text \<open>
  Claim C5, as the specification states it, fails: the name is not the entire text
  after the first colon. On the response \<open>TOOL:a:b\<close> the handlers extract \<open>a\<close>, and
  the text after the first colon is \<open>a:b\<close>.
\<close>

theorem extracted_name_counterexample:
  "str_startswith ''TOOL:a:b'' ''TOOL:''
   \<and> extract_tool_name ''TOOL:a:b'' = Inr ''a''
   \<and> text_after_first_colon ''TOOL:a:b'' = ''a:b''
   \<and> extract_tool_name ''TOOL:a:b'' \<noteq> Inr (text_after_first_colon ''TOOL:a:b'')"
  by (simp add: text_after_first_colon_def str_eval)

text \<open>
  Claim C5, amended. For every response text that starts with \<open>TOOL:\<close>, the name the
  handlers extract is the text between the first colon and the next colon, or the end
  of the text when there is no other colon, trimmed. When the text has no colon after
  the prefix, this is the entire text after the first colon, trimmed.
\<close>

theorem extracted_name_is_second_piece:
  assumes "str_startswith t ''TOOL:''"
  shows "extract_tool_name t = Inr (str_strip (takeWhile (\<lambda>c. c \<noteq> CHR '':'') (drop 5 t)))
       \<and> (CHR '':'' \<notin> set (drop 5 t) \<longrightarrow> extract_tool_name t = Inr (text_after_first_colon t))"
proof -
  have a: "extract_tool_name t = Inr (str_strip (takeWhile (\<lambda>c. c \<noteq> CHR '':'') (drop 5 t)))"
    using assms by (rule extract_tool_name_startswith)
  have b: "text_after_first_colon t = str_strip (drop 5 t)"
    using assms by (rule text_after_first_colon_TOOL)
  have "extract_tool_name t = Inr (text_after_first_colon t)" if "CHR '':'' \<notin> set (drop 5 t)"
  proof -
    from that have "takeWhile (\<lambda>c. c \<noteq> CHR '':'') (drop 5 t) = drop 5 t"
      by (auto simp: takeWhile_eq_all_conv)
    with a b show ?thesis by simp
  qed
  with a show ?thesis by blast
qed


theorem extracted_name_is_second_piece_witness:
  "str_startswith (''TOOL:'' @ [CHR 0xC2, CHR 0xA0] @ ''provide_info '') ''TOOL:''
   \<and> CHR '':'' \<notin> set (drop 5 (''TOOL:'' @ [CHR 0xC2, CHR 0xA0] @ ''provide_info ''))
   \<and> extract_tool_name (''TOOL:'' @ [CHR 0xC2, CHR 0xA0] @ ''provide_info '')
         = Inr (str_strip (takeWhile (\<lambda>c. c \<noteq> CHR '':'') (drop 5 (''TOOL:'' @ [CHR 0xC2, CHR 0xA0] @ ''provide_info ''))))
   \<and> extract_tool_name (''TOOL:'' @ [CHR 0xC2, CHR 0xA0] @ ''provide_info '')
         = Inr (text_after_first_colon (''TOOL:'' @ [CHR 0xC2, CHR 0xA0] @ ''provide_info ''))
   \<and> extract_tool_name (''TOOL:'' @ [CHR 0xC2, CHR 0xA0] @ ''provide_info '') = Inr ''provide_info''"
proof -
  have h: "str_startswith (''TOOL:'' @ [CHR 0xC2, CHR 0xA0] @ ''provide_info '') ''TOOL:''"
    by (simp add: str_startswith_def)
  have n: "CHR '':'' \<notin> set (drop 5 (''TOOL:'' @ [CHR 0xC2, CHR 0xA0] @ ''provide_info ''))"
    by simp
  have v: "extract_tool_name (''TOOL:'' @ [CHR 0xC2, CHR 0xA0] @ ''provide_info '') = Inr ''provide_info''"
    by (simp add: str_eval)
  from extracted_name_is_second_piece [OF h] h n v show ?thesis
    by blast
qed

section \<open>The handoff\<close>

text \<open>
  Claim C6. A step that passes a query to the triage agent binds one of the three
  specialists and leaves the controller awaiting that specialist. From any session in
  which a specialist is bound, every run on any lines and any classifier ends in a
  session with the same agent bound, so never awaiting triage, and every query handled
  during the run was handled by that agent: the triage agent does not run again. And
  after any such run, when the controller awaits the specialist, a next line that is
  not a word of leave is handled by the handler of the bound agent, called with the
  trimmed line, the context and the next answer of the classifier: its response is
  written after the agent's name, its tools are the tools invoked, and the controller
  awaits the answer whether to continue.
\<close>

theorem handoff_is_final:
  "(controller_state s = AWAITING_TRIAGE \<and> str_lower (str_strip line) \<notin> {''quit'', ''exit'', ''bye''}
      \<longrightarrow> (\<exists>s'. step llm line s = Inr s' \<and> controller_state s' = AWAITING_SPECIALIST
                \<and> current_agent s' \<in> {''billing'', ''technical'', ''general''}
                \<and> handled s' = handled s @ [(''triage'', str_strip line)]))
   \<and> (current_agent s \<in> {''billing'', ''technical'', ''general''}
      \<longrightarrow> (\<exists>s'. run llm s lines = Inr s' \<and> current_agent s' = current_agent s
                \<and> controller_state s' \<noteq> AWAITING_TRIAGE
                \<and> (\<exists>hs. handled s' = handled s @ hs \<and> (\<forall>h \<in> set hs. fst h = current_agent s))))
   \<and> (current_agent s \<in> {''billing'', ''technical'', ''general''}
      \<longrightarrow> (\<exists>s1. run llm s lines = Inr s1 \<and> current_agent s1 = current_agent s
                \<and> (controller_state s1 = AWAITING_SPECIALIST
                     \<and> str_lower (str_strip line) \<notin> {''quit'', ''exit'', ''bye''}
                    \<longrightarrow> (\<exists>s'. run llm s (lines @ [line]) = Inr s'
                           \<and> controller_state s' = AWAITING_CONTINUE
                           \<and> current_agent s' = current_agent s
                           \<and> handled s' = handled s1 @ [(current_agent s, str_strip line)]
                           \<and> llm_calls s' = Suc (llm_calls s1)
                           \<and> (case (if current_agent s = ''billing''
                                     then (''Billing Agent'',
                                           BillingAgent_process_query (llm (llm_calls s1))
                                             (Some (user_context s1)) (str_strip line))
                                     else if current_agent s = ''technical''
                                     then (''Technical Agent'',
                                           TechnicalAgent_process_query (llm (llm_calls s1))
                                             (Some (user_context s1)) (str_strip line))
                                     else (''General Agent'',
                                           GeneralAgent_process_query (llm (llm_calls s1))
                                             (str_strip line))) of
                                 (agent, r, tools) \<Rightarrow>
                                   invoked s' = invoked s1 @ tools
                                   \<and> stdout s' = stdout s1 @
                                        [user_marker @ '' You: '',
                                         green_marker @ '' '' @ agent @ '': '' @ r @ ''\<newline>'',
                                         blue_marker
                                           @ '' Do you have any other questions? (yes/no)\<newline>''])))))"
proof (intro conjI impI)
  assume a: "controller_state s = AWAITING_TRIAGE
             \<and> str_lower (str_strip line) \<notin> {''quit'', ''exit'', ''bye''}"
  then have p: "point s = At_input" and c: "current_agent s = ''triage''"
    by (auto simp: controller_state_def split: program_point.splits if_splits)
  from a have q: "str_lower (str_strip line) \<notin> {''quit'', ''exit'', ''bye''}" by simp
  from step_triage_query [OF p q c, of llm] obtain it msg s'
    where s': "step llm line s = Inr s'"
      and d: "s' = s\<lparr>user_context := (user_context s)\<lparr>issue_type := Some it,
                           previous_queries := previous_queries (user_context s) @ [str_strip line]\<rparr>,
                  llm_calls := Suc (llm_calls s),
                  handled := handled s @ [(''triage'', str_strip line)],
                  stdout := stdout s @
                    [user_marker @ '' You: '',
                     green_marker @ '' Triage Agent: '' @ msg @ ''\<newline>''],
                  current_agent := (if it = ''billing'' then ''billing''
                                    else if it = ''technical'' then ''technical'' else ''general'')\<rparr>"
    by blast
  from d p have "controller_state s' = AWAITING_SPECIALIST
                \<and> current_agent s' \<in> {''billing'', ''technical'', ''general''}
                \<and> handled s' = handled s @ [(''triage'', str_strip line)]"
    by (simp add: controller_state_def)
  with s' show "\<exists>s'. step llm line s = Inr s' \<and> controller_state s' = AWAITING_SPECIALIST
                \<and> current_agent s' \<in> {''billing'', ''technical'', ''general''}
                \<and> handled s' = handled s @ [(''triage'', str_strip line)]"
    by blast
next
  assume a: "current_agent s \<in> {''billing'', ''technical'', ''general''}"
  from run_specialist [OF a, of llm lines] obtain s' hs
    where r: "run llm s lines = Inr s'" and c: "current_agent s' = current_agent s"
      and h: "handled s' = handled s @ hs" "\<forall>h \<in> set hs. fst h = current_agent s"
    by blast
  from a c have "controller_state s' \<noteq> AWAITING_TRIAGE"
    by (simp add: controller_state_specialist)
  with r c h show "\<exists>s'. run llm s lines = Inr s' \<and> current_agent s' = current_agent s
                \<and> controller_state s' \<noteq> AWAITING_TRIAGE
                \<and> (\<exists>hs. handled s' = handled s @ hs \<and> (\<forall>h \<in> set hs. fst h = current_agent s))"
    by blast
next
  assume a: "current_agent s \<in> {''billing'', ''technical'', ''general''}"
  from run_specialist [OF a, of llm lines] obtain s1
    where r: "run llm s lines = Inr s1" and c: "current_agent s1 = current_agent s"
    by (elim exE conjE)
  note d = run_bound_specialist [OF a r c, of line]
  show "\<exists>s1. run llm s lines = Inr s1 \<and> current_agent s1 = current_agent s
                \<and> (controller_state s1 = AWAITING_SPECIALIST
                     \<and> str_lower (str_strip line) \<notin> {''quit'', ''exit'', ''bye''}
                    \<longrightarrow> (\<exists>s'. run llm s (lines @ [line]) = Inr s'
                           \<and> controller_state s' = AWAITING_CONTINUE
                           \<and> current_agent s' = current_agent s
                           \<and> handled s' = handled s1 @ [(current_agent s, str_strip line)]
                           \<and> llm_calls s' = Suc (llm_calls s1)
                           \<and> (case (if current_agent s = ''billing''
                                     then (''Billing Agent'',
                                           BillingAgent_process_query (llm (llm_calls s1))
                                             (Some (user_context s1)) (str_strip line))
                                     else if current_agent s = ''technical''
                                     then (''Technical Agent'',
                                           TechnicalAgent_process_query (llm (llm_calls s1))
                                             (Some (user_context s1)) (str_strip line))
                                     else (''General Agent'',
                                           GeneralAgent_process_query (llm (llm_calls s1))
                                             (str_strip line))) of
                                 (agent, r, tools) \<Rightarrow>
                                   invoked s' = invoked s1 @ tools
                                   \<and> stdout s' = stdout s1 @
                                        [user_marker @ '' You: '',
                                         green_marker @ '' '' @ agent @ '': '' @ r @ ''\<newline>'',
                                         blue_marker
                                           @ '' Do you have any other questions? (yes/no)\<newline>''])))"
  proof (rule exI [of _ s1], intro conjI impI)
    show "run llm s lines = Inr s1" by (rule r)
    show "current_agent s1 = current_agent s" by (rule c)
  next
    assume "controller_state s1 = AWAITING_SPECIALIST
            \<and> str_lower (str_strip line) \<notin> {''quit'', ''exit'', ''bye''}"
    then have w: "controller_state s1 = AWAITING_SPECIALIST"
      and nq: "str_lower (str_strip line) \<notin> {''quit'', ''exit'', ''bye''}"
      by (rule conjunct1, rule conjunct2)
    show "\<exists>s'. run llm s (lines @ [line]) = Inr s'
                           \<and> controller_state s' = AWAITING_CONTINUE
                           \<and> current_agent s' = current_agent s
                           \<and> handled s' = handled s1 @ [(current_agent s, str_strip line)]
                           \<and> llm_calls s' = Suc (llm_calls s1)
                           \<and> (case (if current_agent s = ''billing''
                                     then (''Billing Agent'',
                                           BillingAgent_process_query (llm (llm_calls s1))
                                             (Some (user_context s1)) (str_strip line))
                                     else if current_agent s = ''technical''
                                     then (''Technical Agent'',
                                           TechnicalAgent_process_query (llm (llm_calls s1))
                                             (Some (user_context s1)) (str_strip line))
                                     else (''General Agent'',
                                           GeneralAgent_process_query (llm (llm_calls s1))
                                             (str_strip line))) of
                                 (agent, r, tools) \<Rightarrow>
                                   invoked s' = invoked s1 @ tools
                                   \<and> stdout s' = stdout s1 @
                                        [user_marker @ '' You: '',
                                         green_marker @ '' '' @ agent @ '': '' @ r @ ''\<newline>'',
                                         blue_marker
                                           @ '' Do you have any other questions? (yes/no)\<newline>''])"
      by (rule d [OF w nq])
  qed
qed

theorem handoff_is_final_witness:
  "controller_state SupportSystem_init = AWAITING_TRIAGE
   \<and> str_lower (str_strip ''I was charged twice'') \<notin> {''quit'', ''exit'', ''bye''}
   \<and> (\<exists>s'. step (\<lambda>n p. Inr ''billing'') ''I was charged twice'' SupportSystem_init = Inr s'
            \<and> controller_state s' = AWAITING_SPECIALIST
            \<and> current_agent s' \<in> {''billing'', ''technical'', ''general''}
            \<and> handled s' = handled SupportSystem_init @ [(''triage'', str_strip ''I was charged twice'')])
   \<and> current_agent (SupportSystem_init\<lparr>current_agent := ''billing''\<rparr>)
         \<in> {''billing'', ''technical'', ''general''}
   \<and> (\<exists>s'. run (\<lambda>n p. Inr ''TOOL:explain_charges'')
               (SupportSystem_init\<lparr>current_agent := ''billing''\<rparr>)
               [''refund please'', ''yes'', ''one more'', ''no''] = Inr s'
            \<and> current_agent s' = current_agent (SupportSystem_init\<lparr>current_agent := ''billing''\<rparr>)
            \<and> controller_state s' \<noteq> AWAITING_TRIAGE
            \<and> (\<exists>hs. handled s' = handled (SupportSystem_init\<lparr>current_agent := ''billing''\<rparr>) @ hs
                    \<and> (\<forall>h \<in> set hs.
                          fst h = current_agent (SupportSystem_init\<lparr>current_agent := ''billing''\<rparr>))))
   \<and> str_lower (str_strip ''and this charge'') \<notin> {''quit'', ''exit'', ''bye''}
   \<and> (\<exists>s1. run (\<lambda>n p. Inr ''TOOL:explain_charges'')
               (SupportSystem_init\<lparr>current_agent := ''billing''\<rparr>)
               [''refund please'', ''yes''] = Inr s1
            \<and> controller_state s1 = AWAITING_SPECIALIST
            \<and> (\<exists>s'. run (\<lambda>n p. Inr ''TOOL:explain_charges'')
                        (SupportSystem_init\<lparr>current_agent := ''billing''\<rparr>)
                        ([''refund please'', ''yes''] @ [''and this charge'']) = Inr s'
                     \<and> controller_state s' = AWAITING_CONTINUE
                     \<and> handled s' = handled s1 @ [(''billing'', ''and this charge'')]
                     \<and> invoked s' = invoked s1 @ [''explain_charges'']))"
proof -
  have h1: "controller_state SupportSystem_init = AWAITING_TRIAGE
            \<and> str_lower (str_strip ''I was charged twice'') \<notin> {''quit'', ''exit'', ''bye''}"
    by (simp add: controller_state_def SupportSystem_init_def str_eval)
  have h2: "current_agent (SupportSystem_init\<lparr>current_agent := ''billing''\<rparr>)
              \<in> {''billing'', ''technical'', ''general''}"
    by simp
  note t = handoff_is_final
             [where s = SupportSystem_init and line = "''I was charged twice''"
                and llm = "\<lambda>n p. Inr ''billing''", THEN conjunct1, THEN mp, OF h1]
  note u = handoff_is_final
             [where s = "SupportSystem_init\<lparr>current_agent := ''billing''\<rparr>"
                and llm = "\<lambda>n p. Inr ''TOOL:explain_charges''"
                and lines = "[''refund please'', ''yes'', ''one more'', ''no'']",
              THEN conjunct2, THEN conjunct1, THEN mp, OF h2]
  let ?s = "SupportSystem_init\<lparr>current_agent := ''billing''\<rparr>"
  let ?llm = "\<lambda>(n::nat) (p::string). (Inr ''TOOL:explain_charges'' :: py_exception + string)"
  have nq: "str_lower (str_strip ''and this charge'') \<notin> {''quit'', ''exit'', ''bye''}"
    by (simp add: str_eval)
  have ev: "\<exists>s1. run ?llm ?s [''refund please'', ''yes''] = Inr s1
                 \<and> controller_state s1 = AWAITING_SPECIALIST"
    by (simp add: step_def Let_def SupportSystem_init_def map_of_agents controller_state_def
                  BillingAgent_process_query_def BillingAgent_try_def BillingAgent_tools_def
                  BillingAgent_is_tool_enabled_def UserContext_default_def
                  str_eval write_fields print_fields)
  have bq: "BillingAgent_process_query (\<lambda>p. Inr ''TOOL:explain_charges'') cx ''and this charge''
              = (''Used explain_charges: '' @ explain_charges ''and this charge'',
                 [''explain_charges''])" for cx
    by (simp add: BillingAgent_process_query_def BillingAgent_try_def BillingAgent_tools_def
                  BillingAgent_is_tool_enabled_def str_eval)
  have st: "str_strip ''and this charge'' = ''and this charge''"
    by (simp add: str_eval)
  from handoff_is_final
         [where s = ?s and llm = ?llm and lines = "[''refund please'', ''yes'']"
            and line = "''and this charge''",
          THEN conjunct2, THEN conjunct2, THEN mp, OF h2]
  obtain s1 where r1: "run ?llm ?s [''refund please'', ''yes''] = Inr s1"
    and imp: "controller_state s1 = AWAITING_SPECIALIST
              \<and> str_lower (str_strip ''and this charge'') \<notin> {''quit'', ''exit'', ''bye''}
             \<longrightarrow> (\<exists>s'. run ?llm ?s ([''refund please'', ''yes''] @ [''and this charge'']) = Inr s'
                           \<and> controller_state s' = AWAITING_CONTINUE
                           \<and> current_agent s' = current_agent ?s
                           \<and> handled s' = handled s1 @ [(current_agent ?s, str_strip ''and this charge'')]
                           \<and> llm_calls s' = Suc (llm_calls s1)
                           \<and> (case (if current_agent ?s = ''billing''
                                     then (''Billing Agent'',
                                           BillingAgent_process_query (?llm (llm_calls s1))
                                             (Some (user_context s1)) (str_strip ''and this charge''))
                                     else if current_agent ?s = ''technical''
                                     then (''Technical Agent'',
                                           TechnicalAgent_process_query (?llm (llm_calls s1))
                                             (Some (user_context s1)) (str_strip ''and this charge''))
                                     else (''General Agent'',
                                           GeneralAgent_process_query (?llm (llm_calls s1))
                                             (str_strip ''and this charge''))) of
                                 (agent, r, tools) \<Rightarrow>
                                   invoked s' = invoked s1 @ tools
                                   \<and> stdout s' = stdout s1 @
                                        [user_marker @ '' You: '',
                                         green_marker @ '' '' @ agent @ '': '' @ r @ ''\<newline>'',
                                         blue_marker
                                           @ '' Do you have any other questions? (yes/no)\<newline>'']))"
    by (elim exE conjE)
  from ev r1 have cs: "controller_state s1 = AWAITING_SPECIALIST"
    by auto
  from cs nq have pre: "controller_state s1 = AWAITING_SPECIALIST
              \<and> str_lower (str_strip ''and this charge'') \<notin> {''quit'', ''exit'', ''bye''}"
    by (rule conjI)
  from imp [THEN mp, OF pre] obtain s'
    where r2: "run ?llm ?s ([''refund please'', ''yes''] @ [''and this charge'']) = Inr s'"
      and c2: "controller_state s' = AWAITING_CONTINUE"
      and h2': "handled s' = handled s1 @ [(current_agent ?s, str_strip ''and this charge'')]"
      and i2: "(case (if current_agent ?s = ''billing''
                                     then (''Billing Agent'',
                                           BillingAgent_process_query (?llm (llm_calls s1))
                                             (Some (user_context s1)) (str_strip ''and this charge''))
                                     else if current_agent ?s = ''technical''
                                     then (''Technical Agent'',
                                           TechnicalAgent_process_query (?llm (llm_calls s1))
                                             (Some (user_context s1)) (str_strip ''and this charge''))
                                     else (''General Agent'',
                                           GeneralAgent_process_query (?llm (llm_calls s1))
                                             (str_strip ''and this charge''))) of
                                 (agent, r, tools) \<Rightarrow>
                                   invoked s' = invoked s1 @ tools
                                   \<and> stdout s' = stdout s1 @
                                        [user_marker @ '' You: '',
                                         green_marker @ '' '' @ agent @ '': '' @ r @ ''\<newline>'',
                                         blue_marker
                                           @ '' Do you have any other questions? (yes/no)\<newline>''])"
    by (elim exE conjE)
  from h2' have h3: "handled s' = handled s1 @ [(''billing'', ''and this charge'')]"
    by (simp add: st)
  from i2 have i3: "invoked s' = invoked s1 @ [''explain_charges'']"
    by (simp add: st bq)
  have v: "\<exists>s1. run ?llm ?s [''refund please'', ''yes''] = Inr s1
            \<and> controller_state s1 = AWAITING_SPECIALIST
            \<and> (\<exists>s'. run ?llm ?s ([''refund please'', ''yes''] @ [''and this charge'']) = Inr s'
                     \<and> controller_state s' = AWAITING_CONTINUE
                     \<and> handled s' = handled s1 @ [(''billing'', ''and this charge'')]
                     \<and> invoked s' = invoked s1 @ [''explain_charges''])"
    by (rule exI [of _ s1], intro conjI, rule r1, rule cs, rule exI [of _ s'], intro conjI)
       (rule r2 c2 h3 i3)+
  from h1 h2 t u nq v show ?thesis
    by (intro conjI) (erule conjunct1, erule conjunct2, assumption+)
qed

section \<open>A turn of the specialist\<close>

text \<open>
  Claim C7, as the specification states it, fails: not every text runs the handler.
  After the first query has been routed to the billing agent, the line \<open>quit\<close> ends
  the session: no handler runs, no classifier call is made, and the controller is in
  \<open>ENDED\<close>, not in \<open>AWAITING_CONTINUE\<close>. The welcome of line 321 announces it:
  the user may type \<open>quit\<close> to exit at any time.
\<close>

theorem specialist_turn_counterexample:
  "(case run (\<lambda>n p. Inr ''billing'') SupportSystem_init [''I was charged twice''] of
      Inl e \<Rightarrow> False
    | Inr s \<Rightarrow>
        controller_state s = AWAITING_SPECIALIST
        \<and> (case step (\<lambda>n p. Inr ''billing'') ''quit'' s of
             Inl e \<Rightarrow> False
           | Inr s' \<Rightarrow>
               controller_state s' = ENDED \<and> controller_state s' \<noteq> AWAITING_CONTINUE
               \<and> handled s' = handled s \<and> llm_calls s' = llm_calls s
               \<and> invoked s' = invoked s))"
  by (simp add: step_def Let_def SupportSystem_init_def map_of_agents controller_state_def
                TriageAgent_process_query_def TriageAgent_try_def IssueType_members_def
                str_eval leave_fields write_fields print_fields)

text \<open>
  Claim C7, amended. While the controller awaits the specialist, a line that, trimmed
  and in lower case, is none of \<open>quit\<close>, \<open>exit\<close>, \<open>bye\<close> makes the bound handler
  run on the trimmed line; its response is written after the agent's name, then
  the question whether there is more, and the controller is in \<open>AWAITING_CONTINUE\<close>
  with the same agent bound. A line that is one of the three words ends the session
  and runs no handler.
\<close>

theorem specialist_turn:
  "controller_state s = AWAITING_SPECIALIST \<and> map_of agents (current_agent s) = Some a
   \<longrightarrow> (if str_lower (str_strip line) \<in> {''quit'', ''exit'', ''bye''}
        then (\<exists>s'. step llm line s = Inr s' \<and> controller_state s' = ENDED
                \<and> handled s' = handled s \<and> invoked s' = invoked s
                \<and> llm_calls s' = llm_calls s)
        else (\<exists>s' r tools.
                process_query a (llm (llm_calls s)) (user_context s) (str_strip line)
                  = (Reply r, user_context s, tools)
                \<and> step llm line s = Inr s' \<and> controller_state s' = AWAITING_CONTINUE
                \<and> current_agent s' = current_agent s
                \<and> handled s' = handled s @ [(current_agent s, str_strip line)]
                \<and> invoked s' = invoked s @ tools
                \<and> stdout s' = stdout s @
                     [user_marker @ '' You: '',
                      green_marker @ '' '' @ agent_name a @ '': '' @ r @ ''\<newline>'',
                      blue_marker @ '' Do you have any other questions? (yes/no)\<newline>'']))"
proof (intro impI)
  assume h: "controller_state s = AWAITING_SPECIALIST \<and> map_of agents (current_agent s) = Some a"
  then have p: "point s = At_input" and k: "current_agent s \<noteq> ''triage''"
    by (auto simp: controller_state_def split: program_point.splits if_splits)
  from h have a: "map_of agents (current_agent s) = Some a" by simp
  show "if str_lower (str_strip line) \<in> {''quit'', ''exit'', ''bye''}
        then (\<exists>s'. step llm line s = Inr s' \<and> controller_state s' = ENDED
                \<and> handled s' = handled s \<and> invoked s' = invoked s
                \<and> llm_calls s' = llm_calls s)
        else (\<exists>s' r tools.
                process_query a (llm (llm_calls s)) (user_context s) (str_strip line)
                  = (Reply r, user_context s, tools)
                \<and> step llm line s = Inr s' \<and> controller_state s' = AWAITING_CONTINUE
                \<and> current_agent s' = current_agent s
                \<and> handled s' = handled s @ [(current_agent s, str_strip line)]
                \<and> invoked s' = invoked s @ tools
                \<and> stdout s' = stdout s @
                     [user_marker @ '' You: '',
                      green_marker @ '' '' @ agent_name a @ '': '' @ r @ ''\<newline>'',
                      blue_marker @ '' Do you have any other questions? (yes/no)\<newline>''])"
  proof (cases "str_lower (str_strip line) \<in> {''quit'', ''exit'', ''bye''}")
    case True
    with p show ?thesis
      by (simp add: step_quit leave_fields write_fields controller_state_def)
  next
    case False
    from a k have n: "a \<noteq> TriageAgent"
      by (auto dest: map_of_agents_cases)
    from process_query_specialist [OF n] obtain r tools
      where pq: "process_query a (llm (llm_calls s)) (user_context s) (str_strip line)
                   = (Reply r, user_context s, tools)"
      by blast
    from False show ?thesis
      by (simp add: step_specialist_query [OF p False a k] pq controller_state_def)
  qed
qed

theorem specialist_turn_witness:
  "controller_state (SupportSystem_init\<lparr>current_agent := ''billing''\<rparr>) = AWAITING_SPECIALIST
   \<and> map_of agents (current_agent (SupportSystem_init\<lparr>current_agent := ''billing''\<rparr>))
        = Some BillingAgent
   \<and> str_lower (str_strip ''refund please'') \<notin> {''quit'', ''exit'', ''bye''}
   \<and> (\<exists>s' r tools.
         process_query BillingAgent ((\<lambda>n p. Inr ''TOOL:explain_charges'')
             (llm_calls (SupportSystem_init\<lparr>current_agent := ''billing''\<rparr>)))
           (user_context (SupportSystem_init\<lparr>current_agent := ''billing''\<rparr>))
           (str_strip ''refund please'')
           = (Reply r, user_context (SupportSystem_init\<lparr>current_agent := ''billing''\<rparr>), tools)
         \<and> step (\<lambda>n p. Inr ''TOOL:explain_charges'') ''refund please''
               (SupportSystem_init\<lparr>current_agent := ''billing''\<rparr>) = Inr s'
         \<and> controller_state s' = AWAITING_CONTINUE
         \<and> handled s' = [(''billing'', ''refund please'')])
   \<and> str_lower (str_strip (''quit'' @ [CHR 0xC2, CHR 0xA0])) \<in> {''quit'', ''exit'', ''bye''}
   \<and> (\<exists>s'. step (\<lambda>n p. Inr ''TOOL:explain_charges'') (''quit'' @ [CHR 0xC2, CHR 0xA0])
               (SupportSystem_init\<lparr>current_agent := ''billing''\<rparr>) = Inr s'
            \<and> controller_state s' = ENDED \<and> handled s' = [])"
proof -
  let ?s = "SupportSystem_init\<lparr>current_agent := ''billing''\<rparr>"
  have h: "controller_state ?s = AWAITING_SPECIALIST
           \<and> map_of agents (current_agent ?s) = Some BillingAgent"
    by (simp add: controller_state_def SupportSystem_init_def map_of_agents)
  have n: "str_lower (str_strip ''refund please'') \<notin> {''quit'', ''exit'', ''bye''}"
    by (simp add: str_eval)
  have q: "str_lower (str_strip (''quit'' @ [CHR 0xC2, CHR 0xA0])) \<in> {''quit'', ''exit'', ''bye''}"
    by (simp add: str_eval)
  have e: "handled ?s = []"
    by (simp add: SupportSystem_init_def)
  note t = specialist_turn
             [where s = ?s and a = BillingAgent and line = "''refund please''"
                and llm = "\<lambda>n p. Inr ''TOOL:explain_charges''", THEN mp, OF h]
  note u = specialist_turn
             [where s = ?s and a = BillingAgent and line = "''quit'' @ [CHR 0xC2, CHR 0xA0]"
                and llm = "\<lambda>n p. Inr ''TOOL:explain_charges''", THEN mp, OF h]
  from t n have t': "\<exists>s' r tools.
         process_query BillingAgent ((\<lambda>n p. Inr ''TOOL:explain_charges'') (llm_calls ?s))
           (user_context ?s) (str_strip ''refund please'')
           = (Reply r, user_context ?s, tools)
         \<and> step (\<lambda>n p. Inr ''TOOL:explain_charges'') ''refund please'' ?s = Inr s'
         \<and> controller_state s' = AWAITING_CONTINUE
         \<and> handled s' = [(''billing'', ''refund please'')]"
    by (simp add: e str_eval) blast
  from u q have u': "\<exists>s'. step (\<lambda>n p. Inr ''TOOL:explain_charges'') (''quit'' @ [CHR 0xC2, CHR 0xA0]) ?s = Inr s'
            \<and> controller_state s' = ENDED \<and> handled s' = []"
    by (simp add: e str_eval) blast
  from h n q t' u' show ?thesis
    by blast
qed

section \<open>The summary\<close>

text \<open>
  Claim C8. When a session that started from a new system ends, the number of queries
  in the context, which is the number the last line of the summary prints, equals the
  number of queries that were passed to the triage agent; queries handled by a
  specialist are not among them. When the first line is \<open>quit\<close> the session ends
  with no query handled and the summary prints the count 0.
\<close>

theorem summary_counts_triage_queries:
  "(start llm (set_user user premium SupportSystem_init) lines = Inr s'
      \<longrightarrow> point s' = Ended
          \<and> length (previous_queries (user_context s'))
              = length (filter (\<lambda>h. fst h = ''triage'') (handled s'))
          \<and> last (stdout s') =
              ''   Queries Handled: ''
                @ str_nat (length (filter (\<lambda>h. fst h = ''triage'') (handled s'))) @ ''\<newline>'')
   \<and> (\<exists>s'. start llm (set_user user premium SupportSystem_init) (''quit'' # lines) = Inr s'
            \<and> handled s' = [] \<and> previous_queries (user_context s') = []
            \<and> last (stdout s') = ''   Queries Handled: 0\<newline>'')"
proof (rule conjI; (rule impI)?)
  let ?s0 = "print_welcome (set_user user premium SupportSystem_init)"
  assume a: "start llm (set_user user premium SupportSystem_init) lines = Inr s'"
  then have r: "run llm ?s0 lines = Inr s'" and p: "point s' = Ended"
    by (auto simp: start_def split: sum.splits if_splits)
  have q0: "previous_queries (user_context ?s0) = map snd (filter (\<lambda>h. fst h = ''triage'') (handled ?s0))"
    by (simp add: print_welcome_fields set_user_def SupportSystem_init_def UserContext_default_def)
  have e0: "point ?s0 = Ended \<longrightarrow> last (stdout ?s0) =
              ''   Queries Handled: '' @ str_nat (length (previous_queries (user_context ?s0))) @ ''\<newline>''"
    by (simp add: print_welcome_fields set_user_def SupportSystem_init_def)
  from run_inv [OF r q0 e0] p
  show "point s' = Ended
          \<and> length (previous_queries (user_context s'))
              = length (filter (\<lambda>h. fst h = ''triage'') (handled s'))
          \<and> last (stdout s') =
              ''   Queries Handled: ''
                @ str_nat (length (filter (\<lambda>h. fst h = ''triage'') (handled s'))) @ ''\<newline>''"
    by simp
next
  let ?s0 = "print_welcome (set_user user premium SupportSystem_init)"
  let ?s1 = "leave (stdout_write (user_marker @ '' You: '') ?s0)"
  have p0: "point ?s0 = At_input"
    by (simp add: print_welcome_fields set_user_def SupportSystem_init_def)
  have q: "str_lower (str_strip ''quit'') \<in> {''quit'', ''exit'', ''bye''}"
    by (simp add: str_eval)
  have "run llm ?s0 (''quit'' # lines) = Inr ?s1"
    by (simp add: step_quit [OF p0 q] run_Ended leave_fields)
  then have "start llm (set_user user premium SupportSystem_init) (''quit'' # lines) = Inr ?s1"
    by (simp add: start_def leave_fields)
  moreover have "handled ?s1 = [] \<and> previous_queries (user_context ?s1) = []"
    by (simp add: leave_fields write_fields print_welcome_fields set_user_def SupportSystem_init_def
                  UserContext_default_def)
  moreover have "last (stdout ?s1) = ''   Queries Handled: 0\<newline>''"
    by (simp add: leave_last write_fields print_welcome_fields set_user_def SupportSystem_init_def
                  UserContext_default_def str_nat.simps)
  ultimately show "\<exists>s'. start llm (set_user user premium SupportSystem_init) (''quit'' # lines) = Inr s'
            \<and> handled s' = [] \<and> previous_queries (user_context s') = []
            \<and> last (stdout s') = ''   Queries Handled: 0\<newline>''"
    by blast
qed

theorem summary_counts_triage_queries_witness:
  "\<exists>s'. start (\<lambda>n p. if n = 0 then Inr ''billing'' else Inr ''TOOL:explain_charges'')
            (set_user ''Aamna'' True SupportSystem_init)
            [''I was charged twice'', ''refund please'', ''no''] = Inr s'
        \<and> handled s' = [(''triage'', ''I was charged twice''), (''billing'', ''refund please'')]
        \<and> point s' = Ended
        \<and> length (previous_queries (user_context s')) = 1
        \<and> last (stdout s') = ''   Queries Handled: 1\<newline>''"
proof -
  let ?llm = "\<lambda>n p. if n = (0::nat) then Inr ''billing'' else Inr ''TOOL:explain_charges''"
  have "\<exists>s'. start ?llm (set_user ''Aamna'' True SupportSystem_init)
            [''I was charged twice'', ''refund please'', ''no''] = Inr s'
        \<and> handled s' = [(''triage'', ''I was charged twice''), (''billing'', ''refund please'')]"
    by (simp add: start_def step_def Let_def SupportSystem_init_def set_user_def map_of_agents
                  TriageAgent_process_query_def TriageAgent_try_def IssueType_members_def
                  BillingAgent_process_query_def BillingAgent_try_def BillingAgent_tools_def
                  BillingAgent_is_tool_enabled_def
                  str_eval leave_fields write_fields print_fields print_welcome_fields)
  then obtain s' where s: "start ?llm (set_user ''Aamna'' True SupportSystem_init)
            [''I was charged twice'', ''refund please'', ''no''] = Inr s'"
    and h: "handled s' = [(''triage'', ''I was charged twice''), (''billing'', ''refund please'')]"
    by blast
  from summary_counts_triage_queries [where llm = ?llm and user = "''Aamna''" and premium = True
         and lines = "[''I was charged twice'', ''refund please'', ''no'']" and s' = s',
         THEN conjunct1, THEN mp, OF s] h
  have "point s' = Ended \<and> length (previous_queries (user_context s')) = 1
        \<and> last (stdout s') = ''   Queries Handled: 1\<newline>''"
    by (simp add: str_nat.simps)
  with s h show ?thesis by blast
qed

section \<open>The extraction never fails\<close>

text \<open>
  Claim C9. A text that holds a colon splits into at least two pieces, so for every
  text that starts with \<open>TOOL:\<close> the index 1 into the split is defined and a name
  is extracted; for the text \<open>TOOL:\<close> alone the name is empty. So on a response that
  starts with \<open>TOOL:\<close> the body of the \<^verbatim>\<open>try\<close> of each of the three handlers returns,
  with no exception; and when the name is empty or is no key of the handler's tools, what
  it returns is the refusal, with no tool called.
\<close>

theorem tool_name_extraction_total:
  "(CHR '':'' \<in> set t \<longrightarrow> 2 \<le> length (str_split t CHR '':''))
   \<and> (str_startswith t ''TOOL:''
       \<longrightarrow> CHR '':'' \<in> set t
           \<and> (\<exists>part. list_getitem (str_split t CHR '':'') 1 = Inr part)
           \<and> (\<exists>nm. extract_tool_name t = Inr nm))
   \<and> extract_tool_name ''TOOL:'' = Inr []
   \<and> (str_startswith (str_strip reply) ''TOOL:''
       \<longrightarrow> (\<exists>r. BillingAgent_try cx query (Inr reply) = Inr r)
           \<and> (\<exists>r. TechnicalAgent_try cx query (Inr reply) = Inr r)
           \<and> (\<exists>r. GeneralAgent_try query (Inr reply) = Inr r))
   \<and> (str_startswith (str_strip reply) ''TOOL:''
        \<and> extract_tool_name (str_strip reply) = Inr nm
        \<and> (nm = [] \<or> nm \<notin> fst ` set BillingAgent_tools)
       \<longrightarrow> BillingAgent_try cx query (Inr reply) = Inr (BillingAgent_refusal, []))
   \<and> (str_startswith (str_strip reply) ''TOOL:''
        \<and> extract_tool_name (str_strip reply) = Inr nm
        \<and> (nm = [] \<or> nm \<notin> fst ` set TechnicalAgent_tools)
       \<longrightarrow> TechnicalAgent_try cx query (Inr reply) = Inr (TechnicalAgent_refusal, []))
   \<and> (str_startswith (str_strip reply) ''TOOL:''
        \<and> extract_tool_name (str_strip reply) = Inr nm
        \<and> (nm = [] \<or> nm \<notin> fst ` set GeneralAgent_tools)
       \<longrightarrow> GeneralAgent_try query (Inr reply) = Inr (GeneralAgent_refusal, []))"
proof -
  have split2: "CHR '':'' \<in> set t \<longrightarrow> 2 \<le> length (str_split t CHR '':'')"
    by (simp add: str_split_colon)
  have idx: "str_startswith t ''TOOL:''
       \<longrightarrow> CHR '':'' \<in> set t
           \<and> (\<exists>part. list_getitem (str_split t CHR '':'') 1 = Inr part)
           \<and> (\<exists>nm. extract_tool_name t = Inr nm)"
  proof
    assume sw: "str_startswith t ''TOOL:''"
    then have c: "CHR '':'' \<in> set t"
      by (auto simp: str_startswith_iff)
    then have "2 \<le> length (str_split t CHR '':'')"
      by (rule str_split_colon)
    then have "\<exists>part. list_getitem (str_split t CHR '':'') 1 = Inr part"
      by (simp add: list_getitem_def)
    with c extract_tool_name_total [OF sw]
    show "CHR '':'' \<in> set t
           \<and> (\<exists>part. list_getitem (str_split t CHR '':'') 1 = Inr part)
           \<and> (\<exists>nm. extract_tool_name t = Inr nm)"
      by blast
  qed
  have empty: "extract_tool_name ''TOOL:'' = Inr []"
    by (simp add: extract_tool_name_literals)
  have tries: "str_startswith (str_strip reply) ''TOOL:''
       \<longrightarrow> (\<exists>r. BillingAgent_try cx query (Inr reply) = Inr r)
           \<and> (\<exists>r. TechnicalAgent_try cx query (Inr reply) = Inr r)
           \<and> (\<exists>r. GeneralAgent_try query (Inr reply) = Inr r)"
  proof
    assume sw: "str_startswith (str_strip reply) ''TOOL:''"
    from extract_tool_name_total [OF sw] obtain n
      where n: "extract_tool_name (str_strip reply) = Inr n" by blast
    show "(\<exists>r. BillingAgent_try cx query (Inr reply) = Inr r)
           \<and> (\<exists>r. TechnicalAgent_try cx query (Inr reply) = Inr r)
           \<and> (\<exists>r. GeneralAgent_try query (Inr reply) = Inr r)"
      by (simp add: BillingAgent_try_TOOL [OF sw n] TechnicalAgent_try_TOOL [OF sw n]
                    GeneralAgent_try_TOOL [OF sw n])
  qed
  have eb: "[] \<notin> fst ` set BillingAgent_tools" by (simp add: BillingAgent_tools_def)
  have et: "[] \<notin> fst ` set TechnicalAgent_tools" by (simp add: TechnicalAgent_tools_def)
  have eg: "[] \<notin> fst ` set GeneralAgent_tools" by (simp add: GeneralAgent_tools_def)
  have rb: "str_startswith (str_strip reply) ''TOOL:''
        \<and> extract_tool_name (str_strip reply) = Inr nm
        \<and> (nm = [] \<or> nm \<notin> fst ` set BillingAgent_tools)
       \<longrightarrow> BillingAgent_try cx query (Inr reply) = Inr (BillingAgent_refusal, [])"
  proof
    assume a: "str_startswith (str_strip reply) ''TOOL:''
        \<and> extract_tool_name (str_strip reply) = Inr nm
        \<and> (nm = [] \<or> nm \<notin> fst ` set BillingAgent_tools)"
    then have sw: "str_startswith (str_strip reply) ''TOOL:''"
      and ex: "extract_tool_name (str_strip reply) = Inr nm" by simp_all
    from a eb have "map_of BillingAgent_tools nm = None"
      by (auto intro: map_of_None_tools)
    then show "BillingAgent_try cx query (Inr reply) = Inr (BillingAgent_refusal, [])"
      by (simp add: BillingAgent_try_TOOL [OF sw ex])
  qed
  have rt: "str_startswith (str_strip reply) ''TOOL:''
        \<and> extract_tool_name (str_strip reply) = Inr nm
        \<and> (nm = [] \<or> nm \<notin> fst ` set TechnicalAgent_tools)
       \<longrightarrow> TechnicalAgent_try cx query (Inr reply) = Inr (TechnicalAgent_refusal, [])"
  proof
    assume a: "str_startswith (str_strip reply) ''TOOL:''
        \<and> extract_tool_name (str_strip reply) = Inr nm
        \<and> (nm = [] \<or> nm \<notin> fst ` set TechnicalAgent_tools)"
    then have sw: "str_startswith (str_strip reply) ''TOOL:''"
      and ex: "extract_tool_name (str_strip reply) = Inr nm" by simp_all
    from a et have "map_of TechnicalAgent_tools nm = None"
      by (auto intro: map_of_None_tools)
    then show "TechnicalAgent_try cx query (Inr reply) = Inr (TechnicalAgent_refusal, [])"
      by (simp add: TechnicalAgent_try_TOOL [OF sw ex])
  qed
  have rg: "str_startswith (str_strip reply) ''TOOL:''
        \<and> extract_tool_name (str_strip reply) = Inr nm
        \<and> (nm = [] \<or> nm \<notin> fst ` set GeneralAgent_tools)
       \<longrightarrow> GeneralAgent_try query (Inr reply) = Inr (GeneralAgent_refusal, [])"
  proof
    assume a: "str_startswith (str_strip reply) ''TOOL:''
        \<and> extract_tool_name (str_strip reply) = Inr nm
        \<and> (nm = [] \<or> nm \<notin> fst ` set GeneralAgent_tools)"
    then have sw: "str_startswith (str_strip reply) ''TOOL:''"
      and ex: "extract_tool_name (str_strip reply) = Inr nm" by simp_all
    from a eg have "map_of GeneralAgent_tools nm = None"
      by (auto intro: map_of_None_tools)
    then show "GeneralAgent_try query (Inr reply) = Inr (GeneralAgent_refusal, [])"
      by (simp add: GeneralAgent_try_TOOL [OF sw ex])
  qed
  from split2 idx empty tries rb rt rg show ?thesis
    by (intro conjI)
qed

theorem tool_name_extraction_total_witness:
  "CHR '':'' \<in> set ''TOOL:''
   \<and> 2 \<le> length (str_split ''TOOL:'' CHR '':'')
   \<and> str_startswith ''TOOL:'' ''TOOL:''
   \<and> (\<exists>part. list_getitem (str_split ''TOOL:'' CHR '':'') 1 = Inr part)
   \<and> str_startswith (str_strip ''TOOL:'') ''TOOL:''
   \<and> extract_tool_name (str_strip ''TOOL:'') = Inr []
   \<and> BillingAgent_try (Some UserContext_default) ''help'' (Inr ''TOOL:'')
       = Inr (BillingAgent_refusal, [])
   \<and> TechnicalAgent_try (Some UserContext_default) ''help'' (Inr ''TOOL:'')
       = Inr (TechnicalAgent_refusal, [])
   \<and> GeneralAgent_try ''help'' (Inr ''TOOL:'') = Inr (GeneralAgent_refusal, [])"
proof -
  have c: "CHR '':'' \<in> set ''TOOL:''" by simp
  have sw: "str_startswith ''TOOL:'' ''TOOL:''" by (simp add: str_startswith_def)
  have sw': "str_startswith (str_strip ''TOOL:'') ''TOOL:''"
    by (simp add: str_strip_literals str_startswith_def)
  have ex: "extract_tool_name (str_strip ''TOOL:'') = Inr []"
    by (simp add: str_strip_literals extract_tool_name_literals)
  note w = tool_name_extraction_total
             [where t = "''TOOL:''" and reply = "''TOOL:''" and nm = "[]"
                and query = "''help''" and cx = "Some UserContext_default"]
  from w c have l: "2 \<le> length (str_split ''TOOL:'' CHR '':'')"
    by blast
  from w sw have p: "\<exists>part. list_getitem (str_split ''TOOL:'' CHR '':'') 1 = Inr part"
    by blast
  from w sw' ex have b: "BillingAgent_try (Some UserContext_default) ''help'' (Inr ''TOOL:'')
       = Inr (BillingAgent_refusal, [])"
    by blast
  from w sw' ex have t: "TechnicalAgent_try (Some UserContext_default) ''help'' (Inr ''TOOL:'')
       = Inr (TechnicalAgent_refusal, [])"
    by blast
  from w sw' ex have g: "GeneralAgent_try ''help'' (Inr ''TOOL:'') = Inr (GeneralAgent_refusal, [])"
    by blast
  from c l sw p sw' ex b t g show ?thesis
    by (intro conjI)
qed

section \<open>The frame of the specialists\<close>

text \<open>
  Claim C10. A call of the billing, technical or general handler returns the context it
  was given: the name, the premium flag, the category and the list of earlier queries
  are the same afterwards, whatever the classifier answers or raises. A call of the
  triage agent does change the context: it appends the query. So a step, and every
  run, of a session with a specialist bound leaves the context of the session as it was.
\<close>

theorem specialists_leave_context:
  "(a \<noteq> TriageAgent \<longrightarrow> fst (snd (process_query a generate_content ctx query)) = ctx)
   \<and> fst (snd (process_query TriageAgent generate_content ctx query)) \<noteq> ctx
   \<and> (current_agent s \<in> {''billing'', ''technical'', ''general''}
       \<longrightarrow> (\<exists>s'. step llm line s = Inr s' \<and> user_context s' = user_context s))
   \<and> (current_agent s \<in> {''billing'', ''technical'', ''general''}
       \<longrightarrow> (\<exists>s'. run llm s lines = Inr s' \<and> user_context s' = user_context s))"
proof -
  have sp: "a \<noteq> TriageAgent \<longrightarrow> fst (snd (process_query a generate_content ctx query)) = ctx"
  proof
    assume "a \<noteq> TriageAgent"
    from process_query_specialist [OF this, of generate_content ctx query]
    show "fst (snd (process_query a generate_content ctx query)) = ctx"
      by auto
  qed
  have tr: "fst (snd (process_query TriageAgent generate_content ctx query)) \<noteq> ctx"
  proof
    assume e: "fst (snd (process_query TriageAgent generate_content ctx query)) = ctx"
    from process_query_triage [of generate_content ctx query] obtain it msg
      where "process_query TriageAgent generate_content ctx query =
               (Routed it msg,
                ctx\<lparr>issue_type := Some it, previous_queries := previous_queries ctx @ [query]\<rparr>, [])"
      by blast
    with e have "ctx\<lparr>issue_type := Some it, previous_queries := previous_queries ctx @ [query]\<rparr> = ctx"
      by simp
    then have "previous_queries
                 (ctx\<lparr>issue_type := Some it, previous_queries := previous_queries ctx @ [query]\<rparr>)
               = previous_queries ctx"
      by (rule arg_cong)
    then show False by simp
  qed
  have st: "current_agent s \<in> {''billing'', ''technical'', ''general''}
       \<longrightarrow> (\<exists>s'. step llm line s = Inr s' \<and> user_context s' = user_context s)"
    using step_specialist [of s llm line] by blast
  have rn: "current_agent s \<in> {''billing'', ''technical'', ''general''}
       \<longrightarrow> (\<exists>s'. run llm s lines = Inr s' \<and> user_context s' = user_context s)"
    using run_specialist [of s llm lines] by blast
  from sp tr st rn show ?thesis
    by (intro conjI)
qed

theorem specialists_leave_context_witness:
  "BillingAgent \<noteq> TriageAgent
   \<and> fst (snd (process_query BillingAgent (\<lambda>p. Inr ''TOOL:explain_charges'')
                  UserContext_default ''why this charge'')) = UserContext_default
   \<and> current_agent (SupportSystem_init\<lparr>current_agent := ''technical''\<rparr>)
         \<in> {''billing'', ''technical'', ''general''}
   \<and> (\<exists>s'. step (\<lambda>n p. Inl (Exception ''quota'')) ''it hangs''
               (SupportSystem_init\<lparr>current_agent := ''technical''\<rparr>) = Inr s'
            \<and> user_context s' = user_context (SupportSystem_init\<lparr>current_agent := ''technical''\<rparr>))
   \<and> (\<exists>s'. run (\<lambda>n p. Inr ''TOOL:check_status'')
               (SupportSystem_init\<lparr>current_agent := ''technical''\<rparr>)
               [''it hangs'', ''yes'', ''still'', ''no''] = Inr s'
            \<and> user_context s' = user_context (SupportSystem_init\<lparr>current_agent := ''technical''\<rparr>))"
proof -
  have n: "BillingAgent \<noteq> TriageAgent" by simp
  have k: "current_agent (SupportSystem_init\<lparr>current_agent := ''technical''\<rparr>)
             \<in> {''billing'', ''technical'', ''general''}"
    by simp
  note a = specialists_leave_context
             [where a = BillingAgent and generate_content = "\<lambda>p. Inr ''TOOL:explain_charges''"
                and ctx = UserContext_default and query = "''why this charge''",
              THEN conjunct1, THEN mp, OF n]
  note b = specialists_leave_context
             [where s = "SupportSystem_init\<lparr>current_agent := ''technical''\<rparr>"
                and llm = "\<lambda>n p. Inl (Exception ''quota'')" and line = "''it hangs''",
              THEN conjunct2, THEN conjunct2, THEN conjunct1, THEN mp, OF k]
  note c = specialists_leave_context
             [where s = "SupportSystem_init\<lparr>current_agent := ''technical''\<rparr>"
                and llm = "\<lambda>n p. Inr ''TOOL:check_status''"
                and lines = "[''it hangs'', ''yes'', ''still'', ''no'']",
              THEN conjunct2, THEN conjunct2, THEN conjunct2, THEN mp, OF k]
  from n a k b c show ?thesis
    by (intro conjI)
qed

end
